theory Spec2Isabelle
  imports Complex_Main "HOL-Library.AList"
begin

section \<open>Python values\<close>

text \<open>
  Everything the program handles is JSON-shaped: the schema document, the requirements
  model, request bodies, test cases and the report are dictionaries, lists, strings,
  integers, booleans and \<^verbatim>\<open>None\<close>. A dictionary is an association list in insertion
  order; \<open>AList.update\<close> is Python's item assignment (an existing key keeps its place,
  a new key goes to the end) and \<open>map_of\<close> is the lookup. A float is given by the
  rational it denotes.
\<close>

datatype jv =
    JNull
  | JBool bool
  | JInt int
  | JFloat rat
  | JStr string
  | JList "jv list"
  | JObj "(string \<times> jv) list"

type_synonym dict = "(string \<times> jv) list"

text \<open>
  An exception is a value: its class and the text that \<^verbatim>\<open>str(e)\<close> gives. The texts
  are CPython's; the program only ever prints or stores them.
\<close>

datatype py_error =
    KeyError string
  | TypeError string
  | AttributeError string
  | IndexError string
  | ValueError string
  | JSONDecodeError string
  | RequestException string

fun error_str :: "py_error \<Rightarrow> string" where
  "error_str (KeyError k) = [CHR 0x27] @ k @ [CHR 0x27]"
| "error_str (TypeError m) = m"
| "error_str (AttributeError m) = m"
| "error_str (IndexError m) = m"
| "error_str (ValueError m) = m"
| "error_str (JSONDecodeError m) = m"
| "error_str (RequestException m) = m"

fun type_name :: "jv \<Rightarrow> string" where
  "type_name JNull = ''NoneType''"
| "type_name (JBool _) = ''bool''"
| "type_name (JInt _) = ''int''"
| "type_name (JFloat _) = ''float''"
| "type_name (JStr _) = ''str''"
| "type_name (JList _) = ''list''"
| "type_name (JObj _) = ''dict''"

subsection \<open>Strings\<close>

text \<open>\<^verbatim>\<open>str.lower()\<close> on the ASCII letters; field names are ASCII identifiers.\<close>

definition lower_char :: "char \<Rightarrow> char" where
  "lower_char c =
     (let n = (of_char c :: nat) in if 65 \<le> n \<and> n \<le> 90 then char_of (n + 32) else c)"

definition lower :: "string \<Rightarrow> string" where
  "lower s = map lower_char s"

fun starts_with :: "string \<Rightarrow> string \<Rightarrow> bool" where
  "starts_with [] s = True"
| "starts_with (p # ps) [] = False"
| "starts_with (p # ps) (c # cs) = (p = c \<and> starts_with ps cs)"

text \<open>\<^verbatim>\<open>sub in s\<close> for two strings.\<close>

fun str_contains :: "string \<Rightarrow> string \<Rightarrow> bool" where
  "str_contains sub [] = (sub = [])"
| "str_contains sub (c # cs) = (starts_with sub (c # cs) \<or> str_contains sub cs)"

subsection \<open>Operators on values\<close>

text \<open>
  \<^verbatim>\<open>v == "s"\<close>: a string equals only a string. \<^verbatim>\<open>v == n\<close> for an integer \<open>n\<close>:
  booleans are the integers 0 and 1, a float is compared by value.
\<close>

fun py_eq_str :: "jv \<Rightarrow> string \<Rightarrow> bool" where
  "py_eq_str (JStr t) s = (t = s)"
| "py_eq_str _ s = False"

fun py_eq_int :: "jv \<Rightarrow> int \<Rightarrow> bool" where
  "py_eq_int (JInt i) n = (i = n)"
| "py_eq_int (JBool b) n = ((if b then 1 else 0) = n)"
| "py_eq_int (JFloat r) n = (r = of_int n)"
| "py_eq_int _ n = False"

text \<open>The truth value of an object, as \<^verbatim>\<open>if\<close>, \<^verbatim>\<open>not\<close> and a filter take it.\<close>

fun truthy :: "jv \<Rightarrow> bool" where
  "truthy JNull = False"
| "truthy (JBool b) = b"
| "truthy (JInt i) = (i \<noteq> 0)"
| "truthy (JFloat r) = (r \<noteq> 0)"
| "truthy (JStr s) = (s \<noteq> [])"
| "truthy (JList xs) = (xs \<noteq> [])"
| "truthy (JObj kvs) = (kvs \<noteq> [])"

text \<open>\<^verbatim>\<open>"k" in v\<close>: a key of a dictionary, a substring of a string, an element of a list.\<close>

fun py_in :: "string \<Rightarrow> jv \<Rightarrow> py_error + bool" where
  "py_in k (JObj kvs) = Inr (map_of kvs k \<noteq> None)"
| "py_in k (JStr s) = Inr (str_contains k s)"
| "py_in k (JList xs) = Inr (JStr k \<in> set xs)"
| "py_in k v = Inl (TypeError (''argument of type '' @ [CHR 0x27] @ type_name v @ [CHR 0x27] @ '' is not iterable''))"

text \<open>\<^verbatim>\<open>v["k"]\<close>.\<close>

fun py_getitem :: "jv \<Rightarrow> string \<Rightarrow> py_error + jv" where
  "py_getitem (JObj kvs) k = (case map_of kvs k of None \<Rightarrow> Inl (KeyError k) | Some v \<Rightarrow> Inr v)"
| "py_getitem (JStr s) k = Inl (TypeError ''string indices must be integers'')"
| "py_getitem (JList xs) k = Inl (TypeError ''list indices must be integers or slices, not str'')"
| "py_getitem v k = Inl (TypeError ([CHR 0x27] @ type_name v @ [CHR 0x27] @ '' object is not subscriptable''))"

text \<open>\<^verbatim>\<open>v.get("k", d)\<close> and \<^verbatim>\<open>v.items()\<close>: methods of a dictionary only.\<close>

fun py_get :: "jv \<Rightarrow> string \<Rightarrow> jv \<Rightarrow> py_error + jv" where
  "py_get (JObj kvs) k d = Inr (case map_of kvs k of None \<Rightarrow> d | Some v \<Rightarrow> v)"
| "py_get v k d = Inl (AttributeError ([CHR 0x27] @ type_name v @ [CHR 0x27] @ '' object has no attribute '' @ [CHR 0x27] @ ''get'' @ [CHR 0x27]))"

fun py_items :: "jv \<Rightarrow> py_error + dict" where
  "py_items (JObj kvs) = Inr kvs"
| "py_items v = Inl (AttributeError ([CHR 0x27] @ type_name v @ [CHR 0x27] @ '' object has no attribute '' @ [CHR 0x27] @ ''items'' @ [CHR 0x27]))"


section \<open>Schema extraction\<close>

text \<open>\<^verbatim>\<open>for x in v\<close>: the elements of a list, the keys of a dictionary, the characters of a string.\<close>

fun py_iter :: "jv \<Rightarrow> py_error + jv list" where
  "py_iter (JList xs) = Inr xs"
| "py_iter (JObj kvs) = Inr (map (\<lambda>kv. JStr (fst kv)) kvs)"
| "py_iter (JStr s) = Inr (map (\<lambda>c. JStr [c]) s)"
| "py_iter v = Inl (TypeError ([CHR 0x27] @ type_name v @ [CHR 0x27] @ '' object is not iterable''))"

text \<open>
  The part of \<^verbatim>\<open>analyze_endpoint_structure\<close> that turns the resolved request schema into
  the sample data; fetching the document and finding the schema in it come before.
  First the two loops over \<^verbatim>\<open>anyOf\<close>.
\<close>

fun any_of_types :: "jv list \<Rightarrow> py_error + jv list" where
  "any_of_types [] = Inr []"
| "any_of_types (t # ts) =
     (case py_in ''type'' t of Inl e \<Rightarrow> Inl e
      | Inr False \<Rightarrow> any_of_types ts
      | Inr True \<Rightarrow>
          (case py_get t ''type'' JNull of Inl e \<Rightarrow> Inl e
           | Inr ty \<Rightarrow> (case any_of_types ts of Inl e \<Rightarrow> Inl e | Inr tys \<Rightarrow> Inr (ty # tys))))"

fun any_of_formats :: "jv list \<Rightarrow> dict \<Rightarrow> py_error + dict" where
  "any_of_formats [] field_data = Inr field_data"
| "any_of_formats (type_info # rest) field_data =
     (case py_in ''format'' type_info of Inl e \<Rightarrow> Inl e
      | Inr False \<Rightarrow> any_of_formats rest field_data
      | Inr True \<Rightarrow>
          (case py_getitem type_info ''format'' of Inl e \<Rightarrow> Inl e
           | Inr fmt \<Rightarrow> any_of_formats rest (AList.update ''format'' fmt field_data)))"

text \<open>The chain headed \<^verbatim>\<open># Add example\<close>.\<close>

definition add_example :: "string \<Rightarrow> dict \<Rightarrow> py_error + dict" where
  "add_example field_name field_data =
     (if lower field_name = ''email'' then
        Inr (AList.update ''example'' (JStr ''user@gmail.com'') field_data)
      else if str_contains ''password'' (lower field_name) then
        Inr (AList.update ''example'' (JStr ''StrongPassword123!'') field_data)
      else (case py_getitem (JObj field_data) ''type'' of Inl e \<Rightarrow> Inl e
            | Inr ty \<Rightarrow>
                if py_eq_str ty ''string'' then
                  Inr (AList.update ''example'' (JStr (''Sample '' @ field_name)) field_data)
                else if py_eq_str ty ''boolean'' then
                  Inr (AList.update ''example''
                         (case map_of field_data ''default'' of None \<Rightarrow> JBool True | Some d \<Rightarrow> d)
                         field_data)
                else Inr field_data))"

text \<open>\<^verbatim>\<open>if key in field_info: field_data[key] = field_info[key]\<close>.\<close>

definition copy_key :: "string \<Rightarrow> jv \<Rightarrow> dict \<Rightarrow> py_error + dict" where
  "copy_key key field_info field_data =
     (case py_in key field_info of Inl e \<Rightarrow> Inl e
      | Inr False \<Rightarrow> Inr field_data
      | Inr True \<Rightarrow>
          (case py_getitem field_info key of Inl e \<Rightarrow> Inl e
           | Inr v \<Rightarrow> Inr (AList.update key v field_data)))"

text \<open>The block headed \<^verbatim>\<open># Handle anyOf case\<close>.\<close>

definition handle_any_of :: "jv \<Rightarrow> dict \<Rightarrow> py_error + dict" where
  "handle_any_of field_info field_data =
     (case py_in ''anyOf'' field_info of Inl e \<Rightarrow> Inl e
      | Inr False \<Rightarrow> Inr field_data
      | Inr True \<Rightarrow>
     (case py_getitem field_info ''anyOf'' of Inl e \<Rightarrow> Inl e
      | Inr any_of \<Rightarrow>
     (case py_iter any_of of Inl e \<Rightarrow> Inl e
      | Inr ts \<Rightarrow>
     (case any_of_types ts of Inl e \<Rightarrow> Inl e
      | Inr tys \<Rightarrow> any_of_formats ts (AList.update ''type'' (JList tys) field_data)))))"

text \<open>The body of the loop over the properties of the schema.\<close>

definition process_property :: "jv \<Rightarrow> string \<Rightarrow> jv \<Rightarrow> py_error + dict" where
  "process_property required_fields field_name field_info =
     (case py_get field_info ''type'' (JStr ''string'') of Inl e \<Rightarrow> Inl e
      | Inr ty \<Rightarrow>
     (case py_get field_info ''title'' (JStr []) of Inl e \<Rightarrow> Inl e
      | Inr title \<Rightarrow>
     (case py_in field_name required_fields of Inl e \<Rightarrow> Inl e
      | Inr req \<Rightarrow>
     (case copy_key ''format'' field_info
             [(''type'', ty), (''description'', title), (''required'', JBool req)] of Inl e \<Rightarrow> Inl e
      | Inr field_data1 \<Rightarrow>
     (case copy_key ''default'' field_info field_data1 of Inl e \<Rightarrow> Inl e
      | Inr field_data2 \<Rightarrow>
     (case handle_any_of field_info field_data2 of Inl e \<Rightarrow> Inl e
      | Inr field_data3 \<Rightarrow> add_example field_name field_data3))))))"

fun process_properties :: "jv \<Rightarrow> dict \<Rightarrow> dict \<Rightarrow> py_error + dict" where
  "process_properties required_fields [] processed_properties = Inr processed_properties"
| "process_properties required_fields ((field_name, field_info) # rest) processed_properties =
     (case process_property required_fields field_name field_info of Inl e \<Rightarrow> Inl e
      | Inr field_data \<Rightarrow>
          process_properties required_fields rest
            (AList.update field_name (JObj field_data) processed_properties))"

text \<open>
  \<open>Inr (Some sample_data)\<close>: the successful analysis; \<open>Inr None\<close>: the schema has no
  \<^verbatim>\<open>properties\<close>, the analysis reports that the schema was not found; \<open>Inl e\<close>: an
  exception, which the handler of \<^verbatim>\<open>analyze_endpoint_structure\<close> turns into a failed
  analysis.
\<close>

definition sample_data_of_schema :: "jv \<Rightarrow> py_error + dict option" where
  "sample_data_of_schema schema =
     (case py_in ''properties'' schema of Inl e \<Rightarrow> Inl e
      | Inr False \<Rightarrow> Inr None
      | Inr True \<Rightarrow>
     (case py_get schema ''required'' (JList []) of Inl e \<Rightarrow> Inl e
      | Inr required_fields \<Rightarrow>
     (case py_getitem schema ''properties'' of Inl e \<Rightarrow> Inl e
      | Inr props \<Rightarrow>
     (case py_items props of Inl e \<Rightarrow> Inl e
      | Inr items \<Rightarrow>
     (case process_properties required_fields items [] of Inl e \<Rightarrow> Inl e
      | Inr sample_data \<Rightarrow> Inr (Some sample_data))))))"

section \<open>Requirements model builder\<close>

text \<open>
  The loop of \<^verbatim>\<open>analyze_endpoint_requirements\<close> over the sample data, which fills the two
  buckets, and the requirements it returns. \<open>Inl e\<close>: an exception, on which the function
  returns \<^verbatim>\<open>None\<close>.
\<close>

fun requirements_loop :: "dict \<Rightarrow> dict \<Rightarrow> dict \<Rightarrow> py_error + (dict \<times> dict)" where
  "requirements_loop [] required optional = Inr (required, optional)"
| "requirements_loop ((field_name, field_info) # rest) required optional =
     (case py_getitem field_info ''type'' of Inl e \<Rightarrow> Inl e
      | Inr ty \<Rightarrow>
     (case py_getitem field_info ''description'' of Inl e \<Rightarrow> Inl e
      | Inr description \<Rightarrow>
     (case py_getitem field_info ''required'' of Inl e \<Rightarrow> Inl e
      | Inr req \<Rightarrow>
     (case copy_key ''format'' field_info
             [(''type'', ty), (''description'', description), (''required'', req)] of Inl e \<Rightarrow> Inl e
      | Inr field_data1 \<Rightarrow>
     (case copy_key ''default'' field_info field_data1 of Inl e \<Rightarrow> Inl e
      | Inr field_data2 \<Rightarrow>
     (case copy_key ''example'' field_info field_data2 of Inl e \<Rightarrow> Inl e
      | Inr field_data \<Rightarrow>
     (case py_getitem field_info ''required'' of Inl e \<Rightarrow> Inl e
      | Inr req' \<Rightarrow>
          if truthy req'
          then requirements_loop rest (AList.update field_name (JObj field_data) required) optional
          else requirements_loop rest required (AList.update field_name (JObj field_data) optional))))))))"

definition requirements_of :: "dict \<Rightarrow> jv \<Rightarrow> py_error + dict" where
  "requirements_of sample_data metadata =
     (case requirements_loop sample_data [] [] of Inl e \<Rightarrow> Inl e
      | Inr (required, optional) \<Rightarrow>
          Inr [(''endpoint_type'', JStr ''users''),
               (''required_fields'', JObj required),
               (''optional_fields'', JObj optional),
               (''metadata'', metadata)])"

section \<open>Default body synthesis\<close>

text \<open>
  The chain of \<^verbatim>\<open>if\<close>/\<^verbatim>\<open>elif\<close> that \<^verbatim>\<open>get_default_request_body\<close> runs for one required
  field. \<open>Inr (Some v)\<close>: the branch that stores \<open>v\<close>; \<open>Inr None\<close>: no branch matched and
  nothing is stored; \<open>Inl e\<close>: the test of a branch raised.
\<close>

definition required_field_value :: "string \<Rightarrow> jv \<Rightarrow> py_error + jv option" where
  "required_field_value field info =
     (case py_in ''example'' info of Inl e \<Rightarrow> Inl e
      | Inr True \<Rightarrow> (case py_getitem info ''example'' of Inl e \<Rightarrow> Inl e | Inr v \<Rightarrow> Inr (Some v))
      | Inr False \<Rightarrow>
     (case py_get info ''format'' JNull of Inl e \<Rightarrow> Inl e
      | Inr fmt \<Rightarrow>
        if py_eq_str fmt ''email'' then Inr (Some (JStr ''test@example.com''))
        else if str_contains ''password'' (lower field) then Inr (Some (JStr ''TestPassword123!''))
        else (case py_getitem info ''type'' of Inl e \<Rightarrow> Inl e
              | Inr ty \<Rightarrow>
                if py_eq_str ty ''string'' then Inr (Some (JStr (''Test'' @ field)))
                else if py_eq_str ty ''boolean'' then Inr (Some (JBool True))
                else if py_eq_str ty ''integer'' then Inr (Some (JInt 1))
                else Inr None)))"

fun required_loop :: "dict \<Rightarrow> dict \<Rightarrow> py_error + dict" where
  "required_loop [] default_body = Inr default_body"
| "required_loop ((field, info) # rest) default_body =
     (case required_field_value field info of
        Inl e \<Rightarrow> Inl e
      | Inr None \<Rightarrow> required_loop rest default_body
      | Inr (Some v) \<Rightarrow> required_loop rest (AList.update field v default_body))"

fun optional_loop :: "dict \<Rightarrow> dict \<Rightarrow> py_error + dict" where
  "optional_loop [] default_body = Inr default_body"
| "optional_loop ((field, info) # rest) default_body =
     (case py_in ''default'' info of
        Inl e \<Rightarrow> Inl e
      | Inr False \<Rightarrow> optional_loop rest default_body
      | Inr True \<Rightarrow>
          (case py_getitem info ''default'' of
             Inl e \<Rightarrow> Inl e
           | Inr v \<Rightarrow> optional_loop rest (AList.update field v default_body)))"

definition get_default_request_body :: "dict \<Rightarrow> py_error + dict" where
  "get_default_request_body requirements =
     (case py_items (case map_of requirements ''required_fields'' of None \<Rightarrow> JObj [] | Some v \<Rightarrow> v) of
        Inl e \<Rightarrow> Inl e
      | Inr req \<Rightarrow>
     (case required_loop req [] of
        Inl e \<Rightarrow> Inl e
      | Inr body1 \<Rightarrow>
     (case py_items (case map_of requirements ''optional_fields'' of None \<Rightarrow> JObj [] | Some v \<Rightarrow> v) of
        Inl e \<Rightarrow> Inl e
      | Inr opt \<Rightarrow> optional_loop opt body1)))"

section \<open>Field variations\<close>

text \<open>
  What the random generators return during one call of \<^verbatim>\<open>generate_field_variations\<close>:
  the \<^verbatim>\<open>Faker\<close> methods and \<^verbatim>\<open>random.randint(1, 100)\<close>.
\<close>

record draws =
  faker_email :: string
  faker_company_email :: string
  faker_free_email :: string
  faker_user_name :: string
  faker_domain_name :: string
  faker_first_name :: string
  faker_last_name :: string
  faker_name :: string
  faker_password :: string
  faker_phone_number :: string
  faker_msisdn :: string
  random_randint :: int

definition generate_field_variations :: "draws \<Rightarrow> string \<Rightarrow> jv \<Rightarrow> py_error + jv list" where
  "generate_field_variations d field_name field_info =
     (case py_in ''type'' field_info of Inl e \<Rightarrow> Inl e
      | Inr False \<Rightarrow> Inr []
      | Inr True \<Rightarrow>
     (case py_getitem field_info ''type'' of Inl e \<Rightarrow> Inl e
      | Inr ty \<Rightarrow>
        if py_eq_str ty ''string'' then
          (if str_contains ''email'' (lower field_name) then
             Inr [JStr (faker_email d), JStr (faker_company_email d), JStr (faker_free_email d),
                  JStr (faker_user_name d @ ''@'' @ faker_domain_name d),
                  JStr ''invalid.email'', JStr ''test@.com'', JStr ''@domain.com'',
                  JStr '' @domain.com'']
           else if str_contains ''name'' (lower field_name) then
             Inr [JStr (faker_first_name d), JStr (faker_last_name d), JStr (faker_name d),
                  JStr ''A'', JStr (replicate 50 CHR ''x''), JStr ''123'',
                  JStr ''$pecial Ch@racters'', JStr '''']
           else if str_contains ''password'' (lower field_name) then
             Inr [JStr (faker_password d), JStr ''P@ssw0rd123!'', JStr ''Str0ng!P@ss'',
                  JStr ''weak'', JStr ''12345678'', JStr ''password'', JStr '''']
           else if str_contains ''phone'' (lower field_name) then
             Inr [JStr (faker_phone_number d), JStr (faker_msisdn d), JStr ''+1234567890'',
                  JStr ''123'', JStr ''abcdefghij'', JStr '''']
           else Inr [])
        else if py_eq_str ty ''integer'' then
          Inr [JInt (random_randint d), JInt 0, JInt (- 1), JInt 999999,
               JStr ''not_a_number'', JStr '''']
        else if py_eq_str ty ''boolean'' then
          Inr [JBool True, JBool False, JNull, JStr ''true'', JStr ''false'', JInt 0, JInt 1]
        else Inr []))"

type_synonym variations = "(string \<times> jv list) list"

text \<open>
  The loop of \<^verbatim>\<open>generate_test_cases\<close> that fills \<^verbatim>\<open>field_variations\<close>; \<open>i\<close> counts the
  iterations, \<open>ds i\<close> are the random draws of iteration \<open>i\<close>.
\<close>

definition field_info_of :: "dict \<Rightarrow> string \<Rightarrow> py_error + jv" where
  "field_info_of requirements field =
     (let req = (case map_of requirements ''required_fields'' of None \<Rightarrow> JObj [] | Some v \<Rightarrow> v);
          opt = (case map_of requirements ''optional_fields'' of None \<Rightarrow> JObj [] | Some v \<Rightarrow> v)
      in case py_in field req of Inl e \<Rightarrow> Inl e
         | Inr True \<Rightarrow> py_getitem req field
         | Inr False \<Rightarrow>
             (case py_in field opt of Inl e \<Rightarrow> Inl e
              | Inr True \<Rightarrow> py_getitem opt field
              | Inr False \<Rightarrow> Inr (JObj [])))"

fun variations_loop ::
  "(nat \<Rightarrow> draws) \<Rightarrow> dict \<Rightarrow> string list \<Rightarrow> nat \<Rightarrow> variations \<Rightarrow> py_error + variations" where
  "variations_loop ds requirements [] i field_variations = Inr field_variations"
| "variations_loop ds requirements (field # rest) i field_variations =
     (case field_info_of requirements field of Inl e \<Rightarrow> Inl e
      | Inr field_info \<Rightarrow>
     (case generate_field_variations (ds i) field field_info of Inl e \<Rightarrow> Inl e
      | Inr vs \<Rightarrow>
          variations_loop ds requirements rest (Suc i) (AList.update field vs field_variations)))"

section \<open>Combinatorial test builder\<close>

text \<open>
  \<^verbatim>\<open>random.choice(seq)\<close>: the random source is a sequence \<open>rng\<close> of numbers, read at
  position \<open>n\<close>; an empty sequence raises.
\<close>

definition random_choice :: "(nat \<Rightarrow> nat) \<Rightarrow> nat \<Rightarrow> 'a list \<Rightarrow> py_error + ('a \<times> nat)" where
  "random_choice rng n seq =
     (if seq = [] then Inl (IndexError ''Cannot choose from an empty sequence'')
      else Inr (seq ! (rng n mod length seq), Suc n))"

text \<open>\<^verbatim>\<open>itertools.combinations(xs, r)\<close>: by position, in lexicographic order.\<close>

fun combinations :: "'a list \<Rightarrow> nat \<Rightarrow> 'a list list" where
  "combinations xs 0 = [[]]"
| "combinations [] (Suc r) = []"
| "combinations (x # xs) (Suc r) = map ((#) x) (combinations xs r) @ combinations xs (Suc r)"

text \<open>\<^verbatim>\<open>sep.join(xs)\<close>.\<close>

fun join :: "string \<Rightarrow> string list \<Rightarrow> string" where
  "join sep [] = []"
| "join sep [x] = x"
| "join sep (x # y # ys) = x @ sep @ join sep (y # ys)"

text \<open>
  A \<^verbatim>\<open>for\<close> loop whose body appends test cases, draws random numbers and may raise:
  the body's cases are concatenated in order, the position in the random source is
  threaded through, the first exception ends the loop.
\<close>

fun for_each ::
  "('a \<Rightarrow> nat \<Rightarrow> py_error + ('b list \<times> nat)) \<Rightarrow> 'a list \<Rightarrow> nat \<Rightarrow> py_error + ('b list \<times> nat)" where
  "for_each body [] n = Inr ([], n)"
| "for_each body (x # xs) n =
     (case body x n of Inl e \<Rightarrow> Inl e
      | Inr (cs, n') \<Rightarrow>
          (case for_each body xs n' of Inl e \<Rightarrow> Inl e
           | Inr (cs', n'') \<Rightarrow> Inr (cs @ cs', n'')))"

text \<open>The single-field pass. \<open>str_of\<close> is Python's \<^verbatim>\<open>str()\<close>.\<close>

definition single_case :: "(jv \<Rightarrow> string) \<Rightarrow> dict \<Rightarrow> string \<Rightarrow> jv \<Rightarrow> dict" where
  "single_case str_of default_body field v =
     [(''name'', JStr (''Test '' @ field @ '' with value: '' @ str_of v)),
      (''method'', JStr ''POST''),
      (''data'', JObj (AList.update field v default_body)),
      (''expected_status_code'', JInt (if \<not> py_eq_str v '''' then 200 else 400)),
      (''expected_behavior'', JStr (''Testing '' @ field @ '' with specific value''))]"

fun single_field_pass ::
  "(jv \<Rightarrow> string) \<Rightarrow> dict \<Rightarrow> string list \<Rightarrow> variations \<Rightarrow> py_error + dict list" where
  "single_field_pass str_of default_body [] field_variations = Inr []"
| "single_field_pass str_of default_body (field # rest) field_variations =
     (case map_of field_variations field of None \<Rightarrow> Inl (KeyError field)
      | Some vs \<Rightarrow>
          (case single_field_pass str_of default_body rest field_variations of Inl e \<Rightarrow> Inl e
           | Inr cs \<Rightarrow> Inr (map (single_case str_of default_body field) vs @ cs)))"

text \<open>The combination pass.\<close>

fun choose_values ::
  "(nat \<Rightarrow> nat) \<Rightarrow> variations \<Rightarrow> string list \<Rightarrow> dict \<Rightarrow> nat \<Rightarrow> py_error + (dict \<times> nat)" where
  "choose_values rng field_variations [] data n = Inr (data, n)"
| "choose_values rng field_variations (field # rest) data n =
     (case map_of field_variations field of None \<Rightarrow> Inl (KeyError field)
      | Some vs \<Rightarrow>
          (case random_choice rng n vs of Inl e \<Rightarrow> Inl e
           | Inr (v, n') \<Rightarrow> choose_values rng field_variations rest (AList.update field v data) n'))"

definition combination_case :: "string list \<Rightarrow> dict \<Rightarrow> dict" where
  "combination_case fields_combo data =
     [(''name'', JStr (''Test combination of '' @ join '', '' fields_combo)),
      (''method'', JStr ''POST''),
      (''data'', JObj data),
      (''expected_status_code'', JInt 200),
      (''expected_behavior'', JStr ''Testing multiple field combinations'')]"

definition combination_body ::
  "(nat \<Rightarrow> nat) \<Rightarrow> dict \<Rightarrow> variations \<Rightarrow> string list \<Rightarrow> nat \<Rightarrow> nat \<Rightarrow> py_error + (dict list \<times> nat)" where
  "combination_body rng default_body field_variations fields_combo u n =
     (case choose_values rng field_variations fields_combo default_body n of Inl e \<Rightarrow> Inl e
      | Inr (data, n') \<Rightarrow> Inr ([combination_case fields_combo data], n'))"

definition combination_pass ::
  "(nat \<Rightarrow> nat) \<Rightarrow> dict \<Rightarrow> string list \<Rightarrow> variations \<Rightarrow> nat \<Rightarrow> py_error + (dict list \<times> nat)" where
  "combination_pass rng default_body selected_fields field_variations n =
     for_each
       (\<lambda>r. for_each
              (\<lambda>fields_combo. for_each (combination_body rng default_body field_variations fields_combo) [0 ..< 3])
              (combinations selected_fields r))
       [2 ..< min 4 (length selected_fields + 1)] n"

definition generate_combination_test_cases ::
  "(jv \<Rightarrow> string) \<Rightarrow> (nat \<Rightarrow> nat) \<Rightarrow> dict \<Rightarrow> string list \<Rightarrow> variations \<Rightarrow> py_error + dict list" where
  "generate_combination_test_cases str_of rng default_body selected_fields field_variations =
     (case single_field_pass str_of default_body selected_fields field_variations of Inl e \<Rightarrow> Inl e
      | Inr singles \<Rightarrow>
          (case combination_pass rng default_body selected_fields field_variations 0 of Inl e \<Rightarrow> Inl e
           | Inr (combos, n) \<Rightarrow> Inr (singles @ combos)))"

section \<open>Advisory merger\<close>

text \<open>
  The outcome of the call of the language model and of \<^verbatim>\<open>json.loads\<close> on its reply:
  the call raised, the reply is not JSON, or the reply parsed to a value.
\<close>

datatype oracle_outcome =
    CallFailed py_error
  | NotJSON string
  | Reply jv

text \<open>\<^verbatim>\<open>v["k"] = x\<close>.\<close>

fun py_setitem :: "jv \<Rightarrow> string \<Rightarrow> jv \<Rightarrow> py_error + jv" where
  "py_setitem (JObj kvs) k x = Inr (JObj (AList.update k x kvs))"
| "py_setitem (JList xs) k x = Inl (TypeError ''list indices must be integers or slices, not str'')"
| "py_setitem v k x = Inl (TypeError ([CHR 0x27] @ type_name v @ [CHR 0x27] @ '' object does not support item assignment''))"

text \<open>
  The loop headed \<^verbatim>\<open># Ensure complete request bodies\<close>. The inner loop copies, for
  every selected field that the case's data declares, the declared value into the copy
  of the default body.
\<close>

fun override_loop :: "jv \<Rightarrow> string list \<Rightarrow> dict \<Rightarrow> py_error + dict" where
  "override_loop c [] complete_body = Inr complete_body"
| "override_loop c (field # rest) complete_body =
     (case py_getitem c ''data'' of Inl e \<Rightarrow> Inl e
      | Inr d \<Rightarrow>
     (case py_in field d of Inl e \<Rightarrow> Inl e
      | Inr False \<Rightarrow> override_loop c rest complete_body
      | Inr True \<Rightarrow>
          (case py_getitem d field of Inl e \<Rightarrow> Inl e
           | Inr v \<Rightarrow> override_loop c rest (AList.update field v complete_body))))"

definition complete_case :: "dict \<Rightarrow> string list \<Rightarrow> jv \<Rightarrow> py_error + jv" where
  "complete_case default_body selected_fields c =
     (case py_in ''data'' c of Inl e \<Rightarrow> Inl e
      | Inr has_data \<Rightarrow>
     (case (if has_data then override_loop c selected_fields default_body else Inr default_body) of
        Inl e \<Rightarrow> Inl e
      | Inr complete_body \<Rightarrow> py_setitem c ''data'' (JObj complete_body)))"

fun complete_all :: "dict \<Rightarrow> string list \<Rightarrow> jv list \<Rightarrow> py_error + jv list" where
  "complete_all default_body selected_fields [] = Inr []"
| "complete_all default_body selected_fields (c # cs) =
     (case complete_case default_body selected_fields c of Inl e \<Rightarrow> Inl e
      | Inr c' \<Rightarrow>
          (case complete_all default_body selected_fields cs of Inl e \<Rightarrow> Inl e
           | Inr cs' \<Rightarrow> Inr (c' # cs')))"

text \<open>
  The \<^verbatim>\<open>try\<close> block of \<^verbatim>\<open>generate_test_cases\<close>. The validation rules and the API key
  only go into the prompt of the language model, whose outcome is \<open>oracle\<close>.
\<close>

definition generate_test_cases_try ::
  "(jv \<Rightarrow> string) \<Rightarrow> (nat \<Rightarrow> draws) \<Rightarrow> (nat \<Rightarrow> nat) \<Rightarrow> oracle_outcome
     \<Rightarrow> dict \<Rightarrow> string list \<Rightarrow> dict \<Rightarrow> py_error + jv list" where
  "generate_test_cases_try str_of ds rng oracle requirements selected_fields default_body =
     (case variations_loop ds requirements selected_fields 0 [] of Inl e \<Rightarrow> Inl e
      | Inr field_variations \<Rightarrow>
     (case generate_combination_test_cases str_of rng default_body selected_fields field_variations of
        Inl e \<Rightarrow> Inl e
      | Inr automated_test_cases \<Rightarrow>
     (case oracle of
        CallFailed e \<Rightarrow> Inl e
      | NotJSON content \<Rightarrow> Inl (JSONDecodeError ''Expecting value'')
      | Reply (JList gpt_test_cases) \<Rightarrow>
          complete_all default_body selected_fields (map JObj automated_test_cases @ gpt_test_cases)
      | Reply v \<Rightarrow>
          Inl (TypeError (''can only concatenate list (not '' @ [CHR 0x22] @ type_name v @ [CHR 0x22] @ '') to list'')))))"

text \<open>The handler \<^verbatim>\<open>except Exception\<close> prints the exception and returns \<^verbatim>\<open>None\<close>.\<close>

definition generate_test_cases ::
  "(jv \<Rightarrow> string) \<Rightarrow> (nat \<Rightarrow> draws) \<Rightarrow> (nat \<Rightarrow> nat) \<Rightarrow> oracle_outcome
     \<Rightarrow> dict \<Rightarrow> string list \<Rightarrow> dict \<Rightarrow> jv list option" where
  "generate_test_cases str_of ds rng oracle requirements selected_fields default_body =
     (case generate_test_cases_try str_of ds rng oracle requirements selected_fields default_body of
        Inl e \<Rightarrow> None
      | Inr all_test_cases \<Rightarrow> Some all_test_cases)"

section \<open>Executor\<close>

datatype payload = NoPayload | Params jv | Json jv

datatype request = Request string string payload

record response =
  status_code :: int
  json_body :: "jv option"
  text_body :: string

text \<open>
  The dispatch on the method: the request that is sent, or the exception raised before
  anything is sent.
\<close>

definition request_of :: "(jv \<Rightarrow> string) \<Rightarrow> string \<Rightarrow> dict \<Rightarrow> py_error + request" where
  "request_of str_of endpoint c =
     (case py_getitem (JObj c) ''method'' of Inl e \<Rightarrow> Inl e
      | Inr m \<Rightarrow>
     (case m of
        JStr s \<Rightarrow>
         (let method = lower s in
          case py_getitem (JObj c) ''data'' of Inl e \<Rightarrow> Inl e
          | Inr data \<Rightarrow>
            if method = ''get'' then
              (case py_in ''id'' data of Inl e \<Rightarrow> Inl e
               | Inr True \<Rightarrow> (case py_getitem data ''id'' of Inl e \<Rightarrow> Inl e
                    | Inr i \<Rightarrow> Inr (Request ''GET'' (endpoint @ ''/'' @ str_of i) NoPayload))
               | Inr False \<Rightarrow> Inr (Request ''GET'' endpoint (Params data)))
            else if method = ''post'' then Inr (Request ''POST'' endpoint (Json data))
            else if method = ''put'' then
              (case py_in ''id'' data of Inl e \<Rightarrow> Inl e
               | Inr True \<Rightarrow> (case py_getitem data ''id'' of Inl e \<Rightarrow> Inl e
                    | Inr i \<Rightarrow> Inr (Request ''PUT'' (endpoint @ ''/'' @ str_of i) (Json data)))
               | Inr False \<Rightarrow> Inr (Request ''PUT'' endpoint (Json data)))
            else if method = ''delete'' then
              (case py_in ''id'' data of Inl e \<Rightarrow> Inl e
               | Inr True \<Rightarrow> (case py_getitem data ''id'' of Inl e \<Rightarrow> Inl e
                    | Inr i \<Rightarrow> Inr (Request ''DELETE'' (endpoint @ ''/'' @ str_of i) NoPayload))
               | Inr False \<Rightarrow> Inr (Request ''DELETE'' endpoint NoPayload))
            else Inl (ValueError (''Unsupported method: '' @ method)))
      | v \<Rightarrow> Inl (AttributeError ([CHR 0x27] @ type_name v @ [CHR 0x27] @ '' object has no attribute '' @ [CHR 0x27] @ ''lower'' @ [CHR 0x27]))))"

text \<open>
  The \<^verbatim>\<open>try\<close> block for one case: \<open>send\<close> is the network for this request (a response,
  or the exception of the transport), \<open>stamp\<close> the time. An exception comes with the
  case as it is at that moment.
\<close>

definition try_case ::
  "(jv \<Rightarrow> string) \<Rightarrow> string \<Rightarrow> (request \<Rightarrow> py_error + response) \<Rightarrow> string \<Rightarrow> dict
     \<Rightarrow> (py_error \<times> dict) + dict" where
  "try_case str_of endpoint send stamp c =
     (case request_of str_of endpoint c of Inl e \<Rightarrow> Inl (e, c)
      | Inr req \<Rightarrow>
     (case send req of Inl e \<Rightarrow> Inl (e, c)
      | Inr resp \<Rightarrow>
     (let c1 = AList.update ''actual_status_code'' (JInt (status_code resp)) c;
          c2 = AList.update ''actual_response''
                 (case json_body resp of Some j \<Rightarrow> j | None \<Rightarrow> JStr (text_body resp)) c1
      in case py_getitem (JObj c2) ''expected_status_code'' of Inl e \<Rightarrow> Inl (e, c2)
         | Inr expected \<Rightarrow>
             Inr (AList.update ''test_result''
                    (JObj [(''passed'', JBool (py_eq_int expected (status_code resp))),
                           (''status_code_match'', JBool (py_eq_int expected (status_code resp))),
                           (''timestamp'', JStr stamp),
                           (''notes'', JStr (''Expected '' @ str_of expected @ '', got ''
                                              @ str_of (JInt (status_code resp))))])
                    c2))))"

text \<open>The \<^verbatim>\<open>try\<close> block with its handler.\<close>

definition run_case ::
  "(jv \<Rightarrow> string) \<Rightarrow> string \<Rightarrow> (request \<Rightarrow> py_error + response) \<Rightarrow> string \<Rightarrow> dict \<Rightarrow> dict" where
  "run_case str_of endpoint send stamp c =
     (case try_case str_of endpoint send stamp c of
        Inr c' \<Rightarrow> c'
      | Inl (e, c') \<Rightarrow>
          AList.update ''test_result''
            (JObj [(''passed'', JBool False), (''error'', JStr (error_str e)), (''timestamp'', JStr stamp)])
            (AList.update ''actual_response'' (JStr (error_str e))
               (AList.update ''actual_status_code'' (JStr ''Error'') c')))"

text \<open>
  The test cases are objects that the loop changes in place: \<open>test_cases\<close> is the list of
  their addresses, \<open>h\<close> the store. \<open>net i\<close> is the network and \<open>now i\<close> the clock
  during iteration \<open>i\<close>.
\<close>

type_synonym store = "nat \<Rightarrow> dict"

fun execute_loop ::
  "(jv \<Rightarrow> string) \<Rightarrow> (nat \<Rightarrow> request \<Rightarrow> py_error + response) \<Rightarrow> (nat \<Rightarrow> string) \<Rightarrow> string
     \<Rightarrow> nat \<Rightarrow> nat list \<Rightarrow> store \<times> nat list \<Rightarrow> store \<times> nat list" where
  "execute_loop str_of net now endpoint i [] (h, results) = (h, results)"
| "execute_loop str_of net now endpoint i (a # rest) (h, results) =
     execute_loop str_of net now endpoint (Suc i) rest
       (h(a := run_case str_of endpoint (net i) (now i) (h a)), results @ [a])"

definition execute_test_cases ::
  "(jv \<Rightarrow> string) \<Rightarrow> (nat \<Rightarrow> request \<Rightarrow> py_error + response) \<Rightarrow> (nat \<Rightarrow> string) \<Rightarrow> string
     \<Rightarrow> nat list \<Rightarrow> store \<Rightarrow> store \<times> nat list" where
  "execute_test_cases str_of net now endpoint test_cases h =
     execute_loop str_of net now endpoint 0 test_cases (h, [])"

section \<open>Report aggregator\<close>

text \<open>\<^verbatim>\<open>test.get("test_result", {}).get(key, default)\<close>.\<close>

definition result_entry :: "jv \<Rightarrow> string \<Rightarrow> jv \<Rightarrow> py_error + jv" where
  "result_entry test key dflt =
     (case py_get test ''test_result'' (JObj []) of Inl e \<Rightarrow> Inl e
      | Inr tr \<Rightarrow> py_get tr key dflt)"

fun count_passed :: "jv list \<Rightarrow> py_error + nat" where
  "count_passed [] = Inr 0"
| "count_passed (test # rest) =
     (case result_entry test ''passed'' (JBool False) of Inl e \<Rightarrow> Inl e
      | Inr p \<Rightarrow>
          (case count_passed rest of Inl e \<Rightarrow> Inl e
           | Inr n \<Rightarrow> Inr (if truthy p then Suc n else n)))"

definition failed_entry :: "jv \<Rightarrow> py_error + jv" where
  "failed_entry test =
     (case py_getitem test ''name'' of Inl e \<Rightarrow> Inl e
      | Inr name \<Rightarrow>
     (case py_getitem test ''expected_status_code'' of Inl e \<Rightarrow> Inl e
      | Inr expected \<Rightarrow>
     (case py_getitem test ''actual_status_code'' of Inl e \<Rightarrow> Inl e
      | Inr actual \<Rightarrow>
     (case result_entry test ''error'' (JStr ''No error message'') of Inl e \<Rightarrow> Inl e
      | Inr err \<Rightarrow>
          Inr (JObj [(''name'', name), (''expected_status'', expected),
                     (''actual_status'', actual), (''error'', err)])))))"

fun failed_tests_summary :: "jv list \<Rightarrow> py_error + jv list" where
  "failed_tests_summary [] = Inr []"
| "failed_tests_summary (test # rest) =
     (case result_entry test ''passed'' (JBool False) of Inl e \<Rightarrow> Inl e
      | Inr p \<Rightarrow>
          if \<not> truthy p then
            (case failed_entry test of Inl e \<Rightarrow> Inl e
             | Inr entry \<Rightarrow>
                 (case failed_tests_summary rest of Inl e \<Rightarrow> Inl e
                  | Inr entries \<Rightarrow> Inr (entry # entries)))
          else failed_tests_summary rest)"

text \<open>
  \<open>percent p t\<close> is the text of \<^verbatim>\<open>f"{(p/t)*100:.2f}%"\<close>, a floating-point computation;
  \<open>stamp\<close> is the time.
\<close>

definition generate_test_report ::
  "(nat \<Rightarrow> nat \<Rightarrow> string) \<Rightarrow> string \<Rightarrow> jv list \<Rightarrow> py_error + dict" where
  "generate_test_report percent stamp results =
     (let total_tests = int (length results) in
      case count_passed results of Inl e \<Rightarrow> Inl e
      | Inr passed \<Rightarrow>
     (let passed_tests = int passed;
          failed_tests = total_tests - passed_tests in
      case failed_tests_summary results of Inl e \<Rightarrow> Inl e
      | Inr failed \<Rightarrow>
          Inr [(''summary'',
                  JObj [(''total_tests'', JInt total_tests),
                        (''passed_tests'', JInt passed_tests),
                        (''failed_tests'', JInt failed_tests),
                        (''success_rate'',
                           JStr (if total_tests > 0 then percent passed (length results) else ''0%''))]),
               (''timestamp'', JStr stamp),
               (''test_results'', JList results),
               (''failed_tests_summary'', JList failed)]))"

section \<open>Notions used in the statements\<close>

text \<open>
  \<open>declared c k\<close>: the value that the data of the test case \<open>c\<close> gives to the field \<open>k\<close>,
  when \<open>c\<close> is a dictionary whose \<^verbatim>\<open>data\<close> is a dictionary with that key.
  \<open>targets_only db sel a\<close>: the data of the case \<open>a\<close> is the default body \<open>db\<close> with some
  of the selected fields set, nothing dropped and nothing else changed.
  \<open>completed db sel pre c\<close>: \<open>c\<close> is the case \<open>pre\<close> with its data replaced by a body that
  has every key of the default body and differs from it only at selected fields that
  \<open>pre\<close> declares, where it has the declared value.
\<close>

fun declared :: "jv \<Rightarrow> string \<Rightarrow> jv option" where
  "declared (JObj kvs) k = (case map_of kvs ''data'' of Some (JObj d) \<Rightarrow> map_of d k | _ \<Rightarrow> None)"
| "declared c k = None"



definition failed_result :: "py_error \<Rightarrow> string \<Rightarrow> jv" where
  "failed_result e stamp =
     JObj [(''passed'', JBool False), (''error'', JStr (error_str e)), (''timestamp'', JStr stamp)]"

text \<open>
  In the words of the specification: a case is passed when its \<^verbatim>\<open>test_result\<close> mapping
  exists and its \<^verbatim>\<open>passed\<close> entry is true.
\<close>

definition case_passed :: "jv \<Rightarrow> bool" where
  "case_passed test =
     (case test of
        JObj kvs \<Rightarrow>
          (case map_of kvs ''test_result'' of
             Some (JObj tr) \<Rightarrow> (case map_of tr ''passed'' of Some p \<Rightarrow> truthy p | None \<Rightarrow> False)
           | _ \<Rightarrow> False)
      | _ \<Rightarrow> False)"

text \<open>
  An executed result as the report reads it: a dictionary whose \<^verbatim>\<open>test_result\<close>, when it
  has one, is a dictionary; and the entries that the digest of the failures lists: the
  name and the expected and actual status.
\<close>

definition result_shape :: "jv \<Rightarrow> bool" where
  "result_shape test =
     (case test of
        JObj kvs \<Rightarrow>
          (case map_of kvs ''test_result'' of None \<Rightarrow> True | Some (JObj tr) \<Rightarrow> True | Some _ \<Rightarrow> False)
      | _ \<Rightarrow> False)"

definition digest_fields :: "jv \<Rightarrow> bool" where
  "digest_fields test =
     (case test of
        JObj kvs \<Rightarrow>
          map_of kvs ''name'' \<noteq> None \<and>
          map_of kvs ''expected_status_code'' \<noteq> None \<and>
          map_of kvs ''actual_status_code'' \<noteq> None
      | _ \<Rightarrow> False)"

text \<open>
  In the words of the specification: the digest lists, for a case that did not pass, its
  name, its expected and actual status and its error; the error is the \<^verbatim>\<open>error\<close> entry
  of the \<^verbatim>\<open>test_result\<close>, or \<^verbatim>\<open>No error message\<close>.
\<close>

definition listed :: "jv \<Rightarrow> jv \<Rightarrow> bool" where
  "listed test entry \<longleftrightarrow>
     (\<exists>kvs name expected actual.
        test = JObj kvs \<and>
        map_of kvs ''name'' = Some name \<and>
        map_of kvs ''expected_status_code'' = Some expected \<and>
        map_of kvs ''actual_status_code'' = Some actual \<and>
        entry = JObj [(''name'', name), (''expected_status'', expected), (''actual_status'', actual),
                      (''error'',
                         (case map_of kvs ''test_result'' of
                            Some (JObj tr) \<Rightarrow>
                              (case map_of tr ''error'' of Some e \<Rightarrow> e
                               | None \<Rightarrow> JStr ''No error message'')
                          | _ \<Rightarrow> JStr ''No error message''))])"

text \<open>
  The results that the executor returns, read from the store: what
  \<^verbatim>\<open>generate_test_report\<close> receives from \<^verbatim>\<open>run_complete_test_suite\<close>.
\<close>

definition results_of :: "store \<times> nat list \<Rightarrow> jv list" where
  "results_of r = map (\<lambda>a. JObj (fst r a)) (snd r)"

section \<open>Sample inputs\<close>

text \<open>A table of variations for three fields.\<close>

definition ex_fv :: variations where
  "ex_fv = [(''email'', [JStr ''a@b.c'', JStr ''invalid.email'']),
            (''age'', [JInt 5, JInt 0, JStr '''']),
            (''active'', [JBool True, JBool False])]"

text \<open>Decimal numerals.\<close>

fun show_nat :: "nat \<Rightarrow> string" where
  "show_nat n = (if n < 10 then [char_of (48 + n)] else show_nat (n div 10) @ [char_of (48 + n mod 10)])"

declare show_nat.simps [simp del]

definition show_int :: "int \<Rightarrow> string" where
  "show_int i = (if i < 0 then ''-'' @ show_nat (nat (- i)) else show_nat (nat i))"

text \<open>Python's \<^verbatim>\<open>str()\<close> on \<^verbatim>\<open>None\<close>, booleans, integers and strings, for the sample runs.\<close>

fun str_scalar :: "jv \<Rightarrow> string" where
  "str_scalar JNull = ''None''"
| "str_scalar (JBool b) = (if b then ''True'' else ''False'')"
| "str_scalar (JInt i) = show_int i"
| "str_scalar (JStr s) = s"
| "str_scalar v = []"

text \<open>Random draws, the same in every iteration, and a random source that counts up.\<close>

definition ex_draws :: draws where
  "ex_draws = \<lparr> faker_email = ''amy@example.org'', faker_company_email = ''amy@smith.com'',
     faker_free_email = ''amy@gmail.com'', faker_user_name = ''amy'', faker_domain_name = ''smith.net'',
     faker_first_name = ''Amy'', faker_last_name = ''Smith'', faker_name = ''Amy Smith'',
     faker_password = ''k#9Lq!2xWz@7'', faker_phone_number = ''555-0100'', faker_msisdn = ''4915112345678'',
     random_randint = 42 \<rparr>"

definition ex_ds :: "nat \<Rightarrow> draws" where
  "ex_ds i = ex_draws"

definition ex_rng :: "nat \<Rightarrow> nat" where
  "ex_rng n = n"

text \<open>
  The requirements of a signup endpoint (required \<^verbatim>\<open>email\<close> and \<^verbatim>\<open>password\<close>, optional
  \<^verbatim>\<open>name\<close> with the empty string as default) with their default body, and of an
  endpoint with a required number \<^verbatim>\<open>price\<close>.
\<close>

definition signup_requirements :: dict where
  "signup_requirements =
     [(''endpoint_type'', JStr ''users''),
      (''required_fields'',
         JObj [(''email'', JObj [(''type'', JStr ''string''), (''description'', JStr ''Email''),
                                 (''required'', JBool True), (''format'', JStr ''email''),
                                 (''example'', JStr ''user@gmail.com'')]),
               (''password'', JObj [(''type'', JStr ''string''), (''description'', JStr ''Password''),
                                 (''required'', JBool True),
                                 (''example'', JStr ''StrongPassword123!'')])]),
      (''optional_fields'',
         JObj [(''name'', JObj [(''type'', JStr ''string''), (''description'', JStr ''Name''),
                                (''required'', JBool False), (''default'', JStr []),
                                (''example'', JStr ''Sample name'')])]),
      (''metadata'', JObj [(''summary'', JStr ''Signup''), (''description'', JStr []), (''tags'', JList [])])]"

definition priced_requirements :: dict where
  "priced_requirements =
     [(''endpoint_type'', JStr ''users''),
      (''required_fields'',
         JObj [(''email'', JObj [(''type'', JStr ''string''), (''description'', JStr ''Email''),
                                 (''required'', JBool True), (''format'', JStr ''email''),
                                 (''example'', JStr ''user@gmail.com'')]),
               (''price'', JObj [(''type'', JStr ''number''), (''description'', JStr ''Price''),
                                 (''required'', JBool True)])]),
      (''optional_fields'', JObj []),
      (''metadata'', JObj [(''summary'', JStr ''Create item''), (''description'', JStr []),
                           (''tags'', JList [])])]"

definition signup_default_body :: dict where
  "signup_default_body =
     [(''email'', JStr ''user@gmail.com''), (''password'', JStr ''StrongPassword123!''), (''name'', JStr [])]"

text \<open>
  A scenario of the oracle that declares two fields, the run of the generation that
  merges it with only \<^verbatim>\<open>email\<close> selected, and the case it becomes.
\<close>

definition weak_password_scenario :: jv where
  "weak_password_scenario =
     JObj [(''name'', JStr ''Weak password''), (''method'', JStr ''POST''),
           (''data'', JObj [(''email'', JStr ''a@b.c''), (''password'', JStr ''weak'')]),
           (''expected_status_code'', JInt 400),
           (''expected_behavior'', JStr ''Rejected'')]"

definition signup_email_values :: "jv list" where
  "signup_email_values =
     [JStr ''amy@example.org'', JStr ''amy@smith.com'', JStr ''amy@gmail.com'', JStr ''amy@smith.net'',
      JStr ''invalid.email'', JStr ''test@.com'', JStr ''@domain.com'', JStr '' @domain.com'']"

definition merged_weak_password_scenario :: jv where
  "merged_weak_password_scenario =
     JObj [(''name'', JStr ''Weak password''), (''method'', JStr ''POST''),
           (''data'', JObj [(''email'', JStr ''a@b.c''), (''password'', JStr ''StrongPassword123!''),
                            (''name'', JStr [])]),
           (''expected_status_code'', JInt 400),
           (''expected_behavior'', JStr ''Rejected'')]"

definition signup_run :: "jv list" where
  "signup_run =
     map JObj (map (single_case str_scalar signup_default_body ''email'') signup_email_values)
     @ [merged_weak_password_scenario]"

text \<open>Two request schemas and the sample data that the extraction gives for them.\<close>

definition signup_schema :: jv where
  "signup_schema =
     JObj [(''title'', JStr ''UserCreate''), (''type'', JStr ''object''),
           (''properties'',
              JObj [(''email'', JObj [(''type'', JStr ''string''), (''format'', JStr ''email''),
                                      (''title'', JStr ''Email'')]),
                    (''age'', JObj [(''type'', JStr ''integer''), (''title'', JStr ''Age'')])]),
           (''required'', JList [JStr ''email'', JStr ''age''])]"

definition signup_sample_data :: dict where
  "signup_sample_data =
     [(''email'', JObj [(''type'', JStr ''string''), (''description'', JStr ''Email''),
                        (''required'', JBool True), (''format'', JStr ''email''),
                        (''example'', JStr ''user@gmail.com'')]),
      (''age'', JObj [(''type'', JStr ''integer''), (''description'', JStr ''Age''),
                      (''required'', JBool True)])]"

definition priced_schema :: jv where
  "priced_schema =
     JObj [(''title'', JStr ''ItemCreate''), (''type'', JStr ''object''),
           (''properties'',
              JObj [(''email'', JObj [(''type'', JStr ''string''), (''format'', JStr ''email''),
                                      (''title'', JStr ''Email'')]),
                    (''price'', JObj [(''type'', JStr ''number''), (''title'', JStr ''Price'')])]),
           (''required'', JList [JStr ''email'', JStr ''price''])]"

definition priced_sample_data :: dict where
  "priced_sample_data =
     [(''email'', JObj [(''type'', JStr ''string''), (''description'', JStr ''Email''),
                        (''required'', JBool True), (''format'', JStr ''email''),
                        (''example'', JStr ''user@gmail.com'')]),
      (''price'', JObj [(''type'', JStr ''number''), (''description'', JStr ''Price''),
                        (''required'', JBool True)])]"

text \<open>
  The float formatting of the success rate, done with exact arithmetic: two decimals,
  rounded half up. For the sample reports.
\<close>

definition two_digits :: "nat \<Rightarrow> string" where
  "two_digits n = [char_of (48 + n div 10), char_of (48 + n mod 10)]"

definition percent_exact :: "nat \<Rightarrow> nat \<Rightarrow> string" where
  "percent_exact p t =
     (let q = (2 * 10000 * p + t) div (2 * t)
      in show_nat (q div 100) @ ''.'' @ two_digits (q mod 100) @ ''%'')"

text \<open>
  An execution of three cases: the first request is refused, the others are answered
  with status 200, which the second case expects and the third (an empty name, expected
  to be rejected) does not. Its results go into the sample report.
\<close>

definition ex_endpoint :: string where
  "ex_endpoint = ''https://api.example.org/api/signup''"

definition ex_store :: store where
  "ex_store a =
     (if a = 0 then single_case str_scalar signup_default_body ''email'' (JStr ''amy@example.org'')
      else if a = 1 then single_case str_scalar signup_default_body ''email'' (JStr ''invalid.email'')
      else if a = 2 then single_case str_scalar signup_default_body ''name'' (JStr [])
      else [])"

definition ex_response :: response where
  "ex_response = \<lparr> status_code = 200, json_body = Some (JObj [(''id'', JInt 7)]), text_body = [] \<rparr>"

definition ex_net :: "nat \<Rightarrow> request \<Rightarrow> py_error + response" where
  "ex_net i req = (if i = 0 then Inl (RequestException ''Connection refused'') else Inr ex_response)"

definition ex_now :: "nat \<Rightarrow> string" where
  "ex_now i = ''2024-05-01T12:00:0'' @ show_nat i"

definition ex_results :: "jv list" where
  "ex_results = results_of (execute_test_cases str_scalar ex_net ex_now ex_endpoint [0, 1, 2] ex_store)"

text \<open>The three results of that execution, written out.\<close>

definition ex_result0 :: dict where
  "ex_result0 =
     [(''name'', JStr ''Test email with value: amy@example.org''),
      (''method'', JStr ''POST''),
      (''data'', JObj [(''email'', JStr ''amy@example.org''), (''password'', JStr ''StrongPassword123!''),
                       (''name'', JStr [])]),
      (''expected_status_code'', JInt 200),
      (''expected_behavior'', JStr ''Testing email with specific value''),
      (''actual_status_code'', JStr ''Error''),
      (''actual_response'', JStr ''Connection refused''),
      (''test_result'',
         JObj [(''passed'', JBool False), (''error'', JStr ''Connection refused''),
               (''timestamp'', JStr (ex_now 0))])]"

definition ex_result1 :: dict where
  "ex_result1 =
     [(''name'', JStr ''Test email with value: invalid.email''),
      (''method'', JStr ''POST''),
      (''data'', JObj [(''email'', JStr ''invalid.email''), (''password'', JStr ''StrongPassword123!''),
                       (''name'', JStr [])]),
      (''expected_status_code'', JInt 200),
      (''expected_behavior'', JStr ''Testing email with specific value''),
      (''actual_status_code'', JInt 200),
      (''actual_response'', JObj [(''id'', JInt 7)]),
      (''test_result'',
         JObj [(''passed'', JBool True), (''status_code_match'', JBool True),
               (''timestamp'', JStr (ex_now 1)),
               (''notes'', JStr (''Expected '' @ show_int 200 @ '', got '' @ show_int 200))])]"

definition ex_result2 :: dict where
  "ex_result2 =
     [(''name'', JStr ''Test name with value: ''),
      (''method'', JStr ''POST''),
      (''data'', JObj [(''email'', JStr ''user@gmail.com''), (''password'', JStr ''StrongPassword123!''),
                       (''name'', JStr [])]),
      (''expected_status_code'', JInt 400),
      (''expected_behavior'', JStr ''Testing name with specific value''),
      (''actual_status_code'', JInt 200),
      (''actual_response'', JObj [(''id'', JInt 7)]),
      (''test_result'',
         JObj [(''passed'', JBool False), (''status_code_match'', JBool False),
               (''timestamp'', JStr (ex_now 2)),
               (''notes'', JStr (''Expected '' @ show_int 400 @ '', got '' @ show_int 200))])]"

text \<open>
  A scenario of the oracle without a name, the case it becomes in the generation, and
  that case after its execution.
\<close>

definition nameless_scenario :: jv where
  "nameless_scenario =
     JObj [(''method'', JStr ''POST''), (''data'', JObj [(''email'', JStr ''a@b.c'')]),
           (''expected_status_code'', JInt 400)]"

definition nameless_case :: dict where
  "nameless_case =
     [(''method'', JStr ''POST''),
      (''data'', JObj [(''email'', JStr ''a@b.c''), (''password'', JStr ''StrongPassword123!''),
                       (''name'', JStr [])]),
      (''expected_status_code'', JInt 400)]"

definition nameless_result :: dict where
  "nameless_result =
     [(''method'', JStr ''POST''),
      (''data'', JObj [(''email'', JStr ''a@b.c''), (''password'', JStr ''StrongPassword123!''),
                       (''name'', JStr [])]),
      (''expected_status_code'', JInt 400),
      (''actual_status_code'', JInt 200),
      (''actual_response'', JObj [(''id'', JInt 7)]),
      (''test_result'',
         JObj [(''passed'', JBool False), (''status_code_match'', JBool False),
               (''timestamp'', JStr (ex_now 1)),
               (''notes'', JStr (''Expected '' @ show_int 400 @ '', got '' @ show_int 200))])]"

section \<open>Properties\<close>

subsection \<open>Loops of the test builder\<close>

lemma py_eq_str_iff: "py_eq_str v s \<longleftrightarrow> v = JStr s"
  by (cases v) auto

lemma single_field_pass_set:
  "single_field_pass str_of db sel fv = Inr cases \<Longrightarrow>
   set cases = {single_case str_of db f v | f v vs. f \<in> set sel \<and> map_of fv f = Some vs \<and> v \<in> set vs}"
proof (induction sel arbitrary: cases)
  case Nil
  then show ?case by simp
next
  case (Cons f rest)
  from Cons.prems obtain vs cs where
    vs: "map_of fv f = Some vs" and
    cs: "single_field_pass str_of db rest fv = Inr cs" and
    eq: "cases = map (single_case str_of db f) vs @ cs"
    by (auto split: option.splits sum.splits)
  have "set cs = {single_case str_of db g v | g v ws. g \<in> set rest \<and> map_of fv g = Some ws \<and> v \<in> set ws}"
    using Cons.IH [OF cs] .
  with vs eq show ?case by auto
qed

lemma single_field_pass_ok:
  "\<forall>f\<in>set sel. map_of fv f \<noteq> None \<Longrightarrow> \<exists>cases. single_field_pass str_of db sel fv = Inr cases"
  by (induction sel) auto

lemma for_each_ok:
  "(\<And>x n. x \<in> set xs \<Longrightarrow> \<exists>r. body x n = Inr r) \<Longrightarrow> \<exists>r. for_each body xs n = Inr r"
proof (induction xs arbitrary: n)
  case Nil
  then show ?case by simp
next
  case (Cons x xs)
  obtain cs n' where b: "body x n = Inr (cs, n')"
    using Cons.prems [of x n] by auto
  obtain r where r: "for_each body xs n' = Inr r"
    using Cons.IH [of n'] Cons.prems by auto
  show ?case using b r by (cases r) simp
qed

lemma for_each_length:
  "for_each body xs n = Inr (cs, n') \<Longrightarrow>
   (\<And>x m cs' m'. x \<in> set xs \<Longrightarrow> body x m = Inr (cs', m') \<Longrightarrow> length cs' = g x) \<Longrightarrow>
   length cs = sum_list (map g xs)"
proof (induction xs arbitrary: n cs)
  case Nil
  then show ?case by simp
next
  case (Cons x xs)
  from Cons.prems(1) obtain c1 n1 c2 where
    b: "body x n = Inr (c1, n1)" and r: "for_each body xs n1 = Inr (c2, n')" and eq: "cs = c1 @ c2"
    by (auto split: sum.splits)
  have "length c1 = g x" using Cons.prems(2) [of x n c1 n1] b by simp
  moreover have "length c2 = sum_list (map g xs)"
    using Cons.IH [OF r] Cons.prems(2) by simp
  ultimately show ?case using eq by simp
qed

lemma for_each_all:
  "for_each body xs n = Inr (cs, n') \<Longrightarrow>
   (\<And>x m cs' m' c. x \<in> set xs \<Longrightarrow> body x m = Inr (cs', m') \<Longrightarrow> c \<in> set cs' \<Longrightarrow> P c) \<Longrightarrow>
   c \<in> set cs \<Longrightarrow> P c"
proof (induction xs arbitrary: n cs)
  case Nil
  then show ?case by simp
next
  case (Cons x xs)
  from Cons.prems(1) obtain c1 n1 c2 where
    b: "body x n = Inr (c1, n1)" and r: "for_each body xs n1 = Inr (c2, n')" and eq: "cs = c1 @ c2"
    by (auto split: sum.splits)
  from Cons.prems(3) eq consider "c \<in> set c1" | "c \<in> set c2" by auto
  then show ?case
  proof cases
    case 1
    then show ?thesis using Cons.prems(2) [of x n c1 n1 c] b by simp
  next
    case 2
    show ?thesis
      by (rule Cons.IH [OF r _ 2]) (rule Cons.prems(2), simp_all)
  qed
qed

lemma length_combinations: "length (combinations xs r) = length xs choose r"
  by (induction xs r rule: combinations.induct) auto

lemma combinations_subset: "c \<in> set (combinations xs r) \<Longrightarrow> set c \<subseteq> set xs"
  by (induction xs r arbitrary: c rule: combinations.induct) fastforce+

lemma choose_values_ok:
  "(\<And>f. f \<in> set combo \<Longrightarrow> \<exists>vs. map_of fv f = Some vs \<and> vs \<noteq> []) \<Longrightarrow>
   \<exists>r. choose_values rng fv combo data n = Inr r"
proof (induction combo arbitrary: data n)
  case Nil
  then show ?case by simp
next
  case (Cons f rest)
  obtain vs where vs: "map_of fv f = Some vs" "vs \<noteq> []"
    using Cons.prems [of f] by auto
  show ?case using vs Cons.IH Cons.prems by (simp add: random_choice_def)
qed

lemma combination_body_ok:
  "(\<And>f. f \<in> set combo \<Longrightarrow> \<exists>vs. map_of fv f = Some vs \<and> vs \<noteq> []) \<Longrightarrow>
   \<exists>r. combination_body rng db fv combo u n = Inr r"
  using choose_values_ok [of combo fv rng db n]
  by (auto simp: combination_body_def split: sum.splits)

lemma combination_body_length:
  "combination_body rng db fv combo u n = Inr (cs, n') \<Longrightarrow> length cs = 1"
  by (auto simp: combination_body_def split: sum.splits)

lemma combination_body_status:
  "combination_body rng db fv combo u n = Inr (cs, n') \<Longrightarrow> c \<in> set cs \<Longrightarrow>
   map_of c ''expected_status_code'' = Some (JInt 200)"
  by (auto simp: combination_body_def combination_case_def split: sum.splits)

lemma sizes_sum:
  "sum_list (map (\<lambda>r. 3 * (k choose r)) [2 ..< min 4 (k + 1)]) = 3 * ((k choose 2) + (k choose 3))"
proof -
  consider "k < 2" | "k = 2" | "3 \<le> k" by linarith
  then show ?thesis
  proof cases
    case 1
    then show ?thesis by simp
  next
    case 2
    have "[2 ..< min 4 (2 + 1)] = [2::nat]" by (simp add: upt_rec)
    with 2 show ?thesis by simp
  next
    case 3
    then have "min 4 (k + 1) = 4" by simp
    moreover have "[2 ..< 4] = [2::nat, 3]" by (simp add: upt_rec)
    ultimately show ?thesis by simp
  qed
qed


lemma override_loop_dict_ok:
  "map_of kvs ''data'' = Some (JObj d) \<Longrightarrow> \<exists>body. override_loop (JObj kvs) sel cb = Inr body"
proof (induction sel arbitrary: cb)
  case Nil
  then show ?case by simp
next
  case (Cons f rest)
  show ?case
  proof (cases "map_of d f")
    case None
    then show ?thesis using Cons by simp
  next
    case (Some v)
    then show ?thesis using Cons by simp
  qed
qed

lemma complete_case_dict_ok:
  assumes "map_of kvs ''data'' = Some (JObj d)"
  shows "\<exists>body. override_loop (JObj kvs) sel db = Inr body \<and>
           complete_case db sel (JObj kvs) = Inr (JObj (AList.update ''data'' (JObj body) kvs))"
proof -
  obtain body where b: "override_loop (JObj kvs) sel db = Inr body"
    using override_loop_dict_ok [OF assms] by blast
  then show ?thesis using assms by (simp add: complete_case_def)
qed

subsection \<open>The single-field pass\<close>

text \<open>
  C2. When every selected field has an entry in the variation table (as the caller
  builds it), the single-field pass returns, and its cases are exactly one per selected
  field and variation value: each such pair has a case whose data is the default body
  with that field set to that value and whose \<^verbatim>\<open>expected_status_code\<close> is 400 when the
  value is the empty string and 200 for every other value, and every emitted case is of
  this kind. The loop that completes the request bodies afterwards leaves the expected
  status of these cases as it is.
\<close>

theorem single_field_expected_status:
  assumes "\<forall>f\<in>set sel. map_of fv f \<noteq> None"
  shows "\<exists>cases. single_field_pass str_of db sel fv = Inr cases \<and>
     (\<forall>f\<in>set sel. \<forall>vs. map_of fv f = Some vs \<longrightarrow>
        (\<forall>v\<in>set vs. \<exists>c\<in>set cases.
           map_of c ''data'' = Some (JObj (AList.update f v db)) \<and>
           map_of c ''expected_status_code'' = Some (JInt (if v = JStr '''' then 400 else 200)))) \<and>
     (\<forall>c\<in>set cases. \<exists>f\<in>set sel. \<exists>vs. map_of fv f = Some vs \<and>
        (\<exists>v\<in>set vs.
           map_of c ''data'' = Some (JObj (AList.update f v db)) \<and>
           map_of c ''expected_status_code'' = Some (JInt (if v = JStr '''' then 400 else 200)))) \<and>
     (\<forall>c\<in>set cases. \<exists>c'. complete_case db sel (JObj c) = Inr (JObj c') \<and>
           map_of c' ''expected_status_code'' = map_of c ''expected_status_code'')"
proof -
  obtain cases where ok: "single_field_pass str_of db sel fv = Inr cases"
    using single_field_pass_ok [OF assms] by blast
  have S: "set cases = {single_case str_of db f v | f v vs. f \<in> set sel \<and> map_of fv f = Some vs \<and> v \<in> set vs}"
    using single_field_pass_set [OF ok] .
  have data: "map_of (single_case str_of db f v) ''data'' = Some (JObj (AList.update f v db))" for f v
    by (simp add: single_case_def)
  have status: "map_of (single_case str_of db f v) ''expected_status_code'' =
                  Some (JInt (if v = JStr '''' then 400 else 200))" for f v
    by (simp add: single_case_def py_eq_str_iff)
  have 1: "\<forall>f\<in>set sel. \<forall>vs. map_of fv f = Some vs \<longrightarrow>
        (\<forall>v\<in>set vs. \<exists>c\<in>set cases.
           map_of c ''data'' = Some (JObj (AList.update f v db)) \<and>
           map_of c ''expected_status_code'' = Some (JInt (if v = JStr '''' then 400 else 200)))"
  proof (intro ballI allI impI)
    fix f vs v
    assume "f \<in> set sel" "map_of fv f = Some vs" "v \<in> set vs"
    then have "single_case str_of db f v \<in> set cases" unfolding S by blast
    then show "\<exists>c\<in>set cases.
           map_of c ''data'' = Some (JObj (AList.update f v db)) \<and>
           map_of c ''expected_status_code'' = Some (JInt (if v = JStr '''' then 400 else 200))"
      using data status by blast
  qed
  have 2: "\<forall>c\<in>set cases. \<exists>f\<in>set sel. \<exists>vs. map_of fv f = Some vs \<and>
        (\<exists>v\<in>set vs.
           map_of c ''data'' = Some (JObj (AList.update f v db)) \<and>
           map_of c ''expected_status_code'' = Some (JInt (if v = JStr '''' then 400 else 200)))"
  proof
    fix c assume "c \<in> set cases"
    then obtain f v vs where "f \<in> set sel" "map_of fv f = Some vs" "v \<in> set vs"
      and c: "c = single_case str_of db f v"
      unfolding S by blast
    then show "\<exists>f\<in>set sel. \<exists>vs. map_of fv f = Some vs \<and>
        (\<exists>v\<in>set vs.
           map_of c ''data'' = Some (JObj (AList.update f v db)) \<and>
           map_of c ''expected_status_code'' = Some (JInt (if v = JStr '''' then 400 else 200)))"
      using data status by blast
  qed
  have 3: "\<forall>c\<in>set cases. \<exists>c'. complete_case db sel (JObj c) = Inr (JObj c') \<and>
           map_of c' ''expected_status_code'' = map_of c ''expected_status_code''"
  proof
    fix c assume "c \<in> set cases"
    then obtain f v where c: "c = single_case str_of db f v"
      unfolding S by blast
    obtain body where "complete_case db sel (JObj c) = Inr (JObj (AList.update ''data'' (JObj body) c))"
      using complete_case_dict_ok [of c "AList.update f v db" sel db] data c by blast
    moreover have "map_of (AList.update ''data'' (JObj body) c) ''expected_status_code'' = map_of c ''expected_status_code''"
      by (simp add: update_conv')
    ultimately show "\<exists>c'. complete_case db sel (JObj c) = Inr (JObj c') \<and>
           map_of c' ''expected_status_code'' = map_of c ''expected_status_code''"
      by blast
  qed
  show ?thesis using ok 1 2 3 by blast
qed

theorem single_field_expected_status_witness:
  "map_of ex_fv ''age'' = Some [JInt 5, JInt 0, JStr []] \<and>
   (\<exists>cases. single_field_pass (\<lambda>v. []) [(''age'', JInt 1)] [''age''] ex_fv = Inr cases \<and>
      (\<exists>c. c \<in> set cases \<and> map_of c ''data'' = Some (JObj [(''age'', JStr [])]) \<and>
                       map_of c ''expected_status_code'' = Some (JInt 400)) \<and>
      (\<exists>c. c \<in> set cases \<and> map_of c ''data'' = Some (JObj [(''age'', JInt 0)]) \<and>
                       map_of c ''expected_status_code'' = Some (JInt 200)))"
proof -
  have h: "\<forall>f\<in>set [''age'']. map_of ex_fv f \<noteq> None"
    by (simp add: ex_fv_def)
  obtain cases where ok: "single_field_pass (\<lambda>v. []) [(''age'', JInt 1)] [''age''] ex_fv = Inr cases"
    and all: "\<forall>f\<in>set [''age'']. \<forall>vs. map_of ex_fv f = Some vs \<longrightarrow>
        (\<forall>v\<in>set vs. \<exists>c\<in>set cases.
           map_of c ''data'' = Some (JObj (AList.update f v [(''age'', JInt 1)])) \<and>
           map_of c ''expected_status_code'' = Some (JInt (if v = JStr [] then 400 else 200)))"
    using single_field_expected_status [OF h, of "\<lambda>v. []" "[(''age'', JInt 1)]"] by blast
  have vs: "map_of ex_fv ''age'' = Some [JInt 5, JInt 0, JStr []]"
    by (simp add: ex_fv_def)
  from all vs have "\<forall>v\<in>set [JInt 5, JInt 0, JStr []]. \<exists>c\<in>set cases.
           map_of c ''data'' = Some (JObj (AList.update ''age'' v [(''age'', JInt 1)])) \<and>
           map_of c ''expected_status_code'' = Some (JInt (if v = JStr [] then 400 else 200))"
    by simp
  then have "(\<exists>c. c \<in> set cases \<and> map_of c ''data'' = Some (JObj [(''age'', JStr [])]) \<and>
                       map_of c ''expected_status_code'' = Some (JInt 400)) \<and>
      (\<exists>c. c \<in> set cases \<and> map_of c ''data'' = Some (JObj [(''age'', JInt 0)]) \<and>
                       map_of c ''expected_status_code'' = Some (JInt 200))"
    by (simp add: Bex_def)
  then show ?thesis using vs ok by blast
qed

subsection \<open>The combination pass\<close>

text \<open>
  C3. For \<open>k\<close> selected fields, each with a non-empty variation list, the combination
  pass returns exactly \<open>3 * (C(k,2) + C(k,3))\<close> test cases, none when \<open>k < 2\<close>, and
  each of them has \<^verbatim>\<open>expected_status_code\<close> 200.
\<close>

theorem combination_pass_count:
  assumes "\<forall>f\<in>set sel. \<exists>vs. map_of fv f = Some vs \<and> vs \<noteq> []"
  shows "\<exists>cases n'. combination_pass rng db sel fv n = Inr (cases, n') \<and>
     length cases = 3 * ((length sel choose 2) + (length sel choose 3)) \<and>
     (length sel < 2 \<longrightarrow> cases = []) \<and>
     (\<forall>c\<in>set cases. map_of c ''expected_status_code'' = Some (JInt 200))"
proof -
  let ?three = "\<lambda>combo. for_each (combination_body rng db fv combo) [0 ..< 3]"
  let ?subsets = "\<lambda>r. for_each ?three (combinations sel r)"
  have field_ok: "\<exists>vs. map_of fv f = Some vs \<and> vs \<noteq> []"
    if "combo \<in> set (combinations sel r)" "f \<in> set combo" for combo r f
    using that assms combinations_subset by blast
  have three_ok: "\<exists>res. ?three combo m = Inr res" if "combo \<in> set (combinations sel r)" for combo r m
    by (rule for_each_ok) (rule combination_body_ok, rule field_ok [OF that])
  have subsets_ok: "\<exists>res. ?subsets r m = Inr res" for r m
    by (rule for_each_ok) (rule three_ok)
  have "\<exists>res. for_each ?subsets [2 ..< min 4 (length sel + 1)] n = Inr res"
    by (rule for_each_ok) (rule subsets_ok)
  then obtain cases n' where run: "combination_pass rng db sel fv n = Inr (cases, n')"
    by (auto simp: combination_pass_def)
  have three_len: "length cs = 3" if "?three combo m = Inr (cs, m')" for combo m cs m'
    using for_each_length [OF that, of "\<lambda>_. 1"] combination_body_length
    by (simp add: sum_list_triv)
  have subsets_len: "length cs = 3 * (length sel choose r)" if "?subsets r m = Inr (cs, m')" for r m cs m'
    using for_each_length [OF that, of "\<lambda>_. 3"] three_len
    by (simp add: sum_list_triv length_combinations)
  have "length cases = sum_list (map (\<lambda>r. 3 * (length sel choose r)) [2 ..< min 4 (length sel + 1)])"
    by (rule for_each_length [OF run [unfolded combination_pass_def]]) (rule subsets_len)
  then have len: "length cases = 3 * ((length sel choose 2) + (length sel choose 3))"
    by (simp only: sizes_sum)
  have none: "length sel < 2 \<longrightarrow> cases = []"
  proof
    assume "length sel < 2"
    then have "length sel choose 2 = 0" "length sel choose 3 = 0"
      by (simp_all add: binomial_eq_0)
    with len show "cases = []" by simp
  qed
  have three_st: "map_of c ''expected_status_code'' = Some (JInt 200)"
    if "?three combo m = Inr (cs, m')" "c \<in> set cs" for combo m cs m' c
    by (rule for_each_all [OF that(1) _ that(2)]) (rule combination_body_status)
  have subsets_st: "map_of c ''expected_status_code'' = Some (JInt 200)"
    if "?subsets r m = Inr (cs, m')" "c \<in> set cs" for r m cs m' c
    by (rule for_each_all [OF that(1) _ that(2)]) (rule three_st)
  have st: "\<forall>c\<in>set cases. map_of c ''expected_status_code'' = Some (JInt 200)"
  proof
    fix c assume "c \<in> set cases"
    show "map_of c ''expected_status_code'' = Some (JInt 200)"
      by (rule for_each_all [OF run [unfolded combination_pass_def] _ \<open>c \<in> set cases\<close>]) (rule subsets_st)
  qed
  show ?thesis using run len none st by blast
qed

theorem combination_pass_count_witness:
  "map_of ex_fv ''email'' = Some [JStr ''a@b.c'', JStr ''invalid.email''] \<and>
   map_of ex_fv ''age'' = Some [JInt 5, JInt 0, JStr []] \<and>
   map_of ex_fv ''active'' = Some [JBool True, JBool False] \<and>
   (\<exists>cases n'. combination_pass (\<lambda>n. n) [(''email'', JStr ''user@gmail.com'')]
        [''email'', ''age'', ''active''] ex_fv 0 = Inr (cases, n') \<and> length cases = 12)"
proof -
  have h: "\<forall>f\<in>set [''email'', ''age'', ''active'']. \<exists>vs. map_of ex_fv f = Some vs \<and> vs \<noteq> []"
    by (simp add: ex_fv_def)
  have c: "Suc (Suc (Suc 0)) choose 2 = 3" "Suc (Suc (Suc 0)) choose 3 = 1"
    by (simp_all add: numeral_2_eq_2 numeral_3_eq_3)
  have "\<exists>cases n'. combination_pass (\<lambda>n. n) [(''email'', JStr ''user@gmail.com'')]
        [''email'', ''age'', ''active''] ex_fv 0 = Inr (cases, n') \<and> length cases = 12"
    using combination_pass_count [OF h, of "\<lambda>n. n" "[(''email'', JStr ''user@gmail.com'')]" 0]
    by (auto simp: c)
  then show ?thesis by (simp add: ex_fv_def)
qed

subsection \<open>The loop that completes the request bodies\<close>


lemma py_getitem_Inr: "py_getitem c k = Inr v \<Longrightarrow> \<exists>kvs. c = JObj kvs \<and> map_of kvs k = Some v"
  by (cases c) (auto split: option.splits)

lemma py_in_False_declared:
  assumes "py_getitem c ''data'' = Inr d" "py_in f d = Inr False"
  shows "declared c f = None"
proof -
  obtain kvs where c: "c = JObj kvs" "map_of kvs ''data'' = Some d"
    using py_getitem_Inr [OF assms(1)] by blast
  show ?thesis using assms(2) c by (cases d) auto
qed

lemma py_getitem_declared:
  assumes "py_getitem c ''data'' = Inr d" "py_getitem d f = Inr v"
  shows "declared c f = Some v"
proof -
  obtain kvs where c: "c = JObj kvs" "map_of kvs ''data'' = Some d"
    using py_getitem_Inr [OF assms(1)] by blast
  obtain dd where d: "d = JObj dd" "map_of dd f = Some v"
    using py_getitem_Inr [OF assms(2)] by blast
  show ?thesis using c d by simp
qed

lemma override_loop_map:
  "override_loop c sel cb = Inr body \<Longrightarrow>
   map_of body k =
     (if k \<in> set sel then (case declared c k of Some v \<Rightarrow> Some v | None \<Rightarrow> map_of cb k)
      else map_of cb k)"
proof (induction sel arbitrary: cb)
  case Nil
  then show ?case by simp
next
  case (Cons f rest)
  from Cons.prems obtain d where d: "py_getitem c ''data'' = Inr d"
    by (auto split: sum.splits)
  from Cons.prems d obtain b where b: "py_in f d = Inr b"
    by (auto split: sum.splits)
  show ?case
  proof (cases b)
    case False
    with Cons.prems d b have run: "override_loop c rest cb = Inr body" by simp
    have "declared c f = None" using py_in_False_declared [OF d] b False by simp
    then show ?thesis using Cons.IH [OF run] by auto
  next
    case True
    with Cons.prems d b obtain v where v: "py_getitem d f = Inr v"
      and run: "override_loop c rest (AList.update f v cb) = Inr body"
      by (auto split: sum.splits)
    have "declared c f = Some v" using py_getitem_declared [OF d v] .
    then show ?thesis using Cons.IH [OF run]
      by (cases "k = f") (auto simp: update_conv' split: option.splits)
  qed
qed

lemma complete_case_result:
  assumes "complete_case db sel c = Inr c'"
  shows "\<exists>kvs body. c = JObj kvs \<and> c' = JObj (AList.update ''data'' (JObj body) kvs) \<and>
           (\<forall>k. map_of body k =
              (if k \<in> set sel then (case declared c k of Some v \<Rightarrow> Some v | None \<Rightarrow> map_of db k)
               else map_of db k))"
proof -
  from assms obtain has_data where h: "py_in ''data'' c = Inr has_data"
    by (auto simp: complete_case_def split: sum.splits)
  from assms h obtain body where
    body: "(if has_data then override_loop c sel db else Inr db) = Inr body" and
    set: "py_setitem c ''data'' (JObj body) = Inr c'"
    by (auto simp: complete_case_def split: sum.splits)
  from set obtain kvs where c: "c = JObj kvs" "c' = JObj (AList.update ''data'' (JObj body) kvs)"
    by (cases c) auto
  have "map_of body k =
          (if k \<in> set sel then (case declared c k of Some v \<Rightarrow> Some v | None \<Rightarrow> map_of db k)
           else map_of db k)" for k
  proof (cases has_data)
    case True
    then show ?thesis using body override_loop_map by simp
  next
    case False
    with h c have "map_of kvs ''data'' = None" by simp
    then have "declared c k = None" using c by simp
    moreover have "body = db" using body False by simp
    ultimately show ?thesis by simp
  qed
  with c show ?thesis by blast
qed

lemma complete_all_rel:
  "complete_all db sel cs = Inr cs' \<Longrightarrow> list_all2 (\<lambda>c c'. complete_case db sel c = Inr c') cs cs'"
proof (induction cs arbitrary: cs')
  case Nil
  then show ?case by simp
next
  case (Cons c cs)
  then show ?case by (auto split: sum.splits)
qed

lemma signup_default_body_eval:
  "get_default_request_body signup_requirements = Inr signup_default_body"
  by (simp add: get_default_request_body_def signup_requirements_def signup_default_body_def required_field_value_def)

lemma upt_2_3: "[2 ..< 3] = [2::nat]" by (simp add: upt_rec)

lemma upt_0_3: "[0 ..< 3] = [0::nat, 1, 2]" by (simp add: upt_rec)

lemma lower_email: "lower ''email'' = ''email''" by (simp add: lower_def lower_char_def)

lemma lower_price: "lower ''price'' = ''price''" by (simp add: lower_def lower_char_def)

lemma upt_2_2: "[2 ..< 2] = ([]::nat list)" by simp

lemma signup_variations:
  "variations_loop ex_ds signup_requirements [''email''] 0 [] = Inr [(''email'', signup_email_values)]"
  by (simp add: signup_requirements_def field_info_of_def generate_field_variations_def lower_email
      ex_ds_def ex_draws_def signup_email_values_def)

lemma signup_automated:
  "generate_combination_test_cases str_scalar ex_rng signup_default_body [''email'']
      [(''email'', signup_email_values)]
   = Inr (map (single_case str_scalar signup_default_body ''email'') signup_email_values)"
  by (simp add: generate_combination_test_cases_def combination_pass_def)

lemma complete_single_case:
  "complete_case signup_default_body [''email''] (JObj (single_case s signup_default_body ''email'' v))
   = Inr (JObj (single_case s signup_default_body ''email'' v))"
  by (simp add: complete_case_def single_case_def signup_default_body_def)

lemma complete_all_append:
  "complete_all db sel (xs @ ys) =
     (case complete_all db sel xs of Inl e \<Rightarrow> Inl e
      | Inr xs' \<Rightarrow> (case complete_all db sel ys of Inl e \<Rightarrow> Inl e | Inr ys' \<Rightarrow> Inr (xs' @ ys')))"
  by (induction xs) (auto split: sum.splits)

lemma complete_all_fixed:
  "(\<And>x. x \<in> set xs \<Longrightarrow> complete_case db sel x = Inr x) \<Longrightarrow> complete_all db sel xs = Inr xs"
  by (induction xs) auto

lemma signup_run_eval:
  "generate_test_cases str_scalar ex_ds ex_rng (Reply (JList [weak_password_scenario]))
     signup_requirements [''email''] signup_default_body = Some signup_run"
proof -
  have a: "complete_all signup_default_body [''email'']
             (map JObj (map (single_case str_scalar signup_default_body ''email'') signup_email_values))
           = Inr (map JObj (map (single_case str_scalar signup_default_body ''email'') signup_email_values))"
    by (rule complete_all_fixed) (auto simp: complete_single_case)
  have b: "complete_all signup_default_body [''email''] [weak_password_scenario] = Inr [merged_weak_password_scenario]"
    by (simp add: complete_case_def weak_password_scenario_def merged_weak_password_scenario_def
        signup_default_body_def)
  show ?thesis
    by (simp only: generate_test_cases_def generate_test_cases_try_def signup_variations
        signup_automated complete_all_append a b signup_run_def sum.case oracle_outcome.case jv.case)
qed

lemma generate_test_cases_structure:
  assumes "generate_test_cases str_of ds rng oracle req sel db = Some all"
  shows "\<exists>fv automated gpt.
           variations_loop ds req sel 0 [] = Inr fv \<and>
           generate_combination_test_cases str_of rng db sel fv = Inr automated \<and>
           oracle = Reply (JList gpt) \<and>
           list_all2 (\<lambda>c c'. complete_case db sel c = Inr c') (map JObj automated @ gpt) all"
proof -
  from assms have tr: "generate_test_cases_try str_of ds rng oracle req sel db = Inr all"
    by (simp add: generate_test_cases_def split: sum.splits)
  then obtain fv where fv: "variations_loop ds req sel 0 [] = Inr fv"
    by (auto simp: generate_test_cases_try_def split: sum.splits)
  from tr fv obtain automated where
    au: "generate_combination_test_cases str_of rng db sel fv = Inr automated"
    by (auto simp: generate_test_cases_try_def split: sum.splits)
  from tr fv au obtain gpt where
    gpt: "oracle = Reply (JList gpt)" and
    run: "complete_all db sel (map JObj automated @ gpt) = Inr all"
    by (auto simp: generate_test_cases_try_def split: oracle_outcome.splits jv.splits)
  show ?thesis using fv au gpt complete_all_rel [OF run] by blast
qed









subsection \<open>Complete request bodies\<close>



subsection \<open>Merging the scenarios of the oracle\<close>

text \<open>
  C9, as amended. Whenever \<^verbatim>\<open>generate_test_cases\<close> returns, the scenarios of the oracle
  are the last cases of the result, in order, and the data of each is the default body in
  which every \<^emph>\<open>selected\<close> field that the scenario's data declares has the declared value;
  every other field, whether the scenario leaves it out or declares it without its being
  selected, has the value of the default body.
\<close>

theorem scenario_merge_selected_only:
  assumes "generate_test_cases str_of ds rng (Reply (JList gpt)) req sel db = Some all"
  shows "length gpt \<le> length all \<and>
     (\<forall>i<length gpt. \<exists>kvs body.
        gpt ! i = JObj kvs \<and>
        all ! (length all - length gpt + i) = JObj (AList.update ''data'' (JObj body) kvs) \<and>
        (\<forall>k. map_of body k =
              (if k \<in> set sel then (case declared (gpt ! i) k of Some v \<Rightarrow> Some v | None \<Rightarrow> map_of db k)
               else map_of db k)))"
proof -
  obtain automated gpt' where
    gpt': "Reply (JList gpt) = Reply (JList gpt')" and
    rel: "list_all2 (\<lambda>c c'. complete_case db sel c = Inr c') (map JObj automated @ gpt') all"
    using generate_test_cases_structure [OF assms] by blast
  from gpt' have [simp]: "gpt' = gpt" by simp
  have len: "length all = length automated + length gpt"
    using list_all2_lengthD [OF rel] by simp
  have "\<exists>kvs body.
        gpt ! i = JObj kvs \<and>
        all ! (length all - length gpt + i) = JObj (AList.update ''data'' (JObj body) kvs) \<and>
        (\<forall>k. map_of body k =
              (if k \<in> set sel then (case declared (gpt ! i) k of Some v \<Rightarrow> Some v | None \<Rightarrow> map_of db k)
               else map_of db k))" if i: "i < length gpt" for i
  proof -
    have idx: "length all - length gpt + i = length automated + i" using len by simp
    have "complete_case db sel ((map JObj automated @ gpt) ! (length automated + i)) = Inr (all ! (length automated + i))"
      using list_all2_nthD [OF rel, of "length automated + i"] i by simp
    then have "complete_case db sel (gpt ! i) = Inr (all ! (length automated + i))"
      by (simp add: nth_append)
    from complete_case_result [OF this] show ?thesis unfolding idx by blast
  qed
  then show ?thesis using len by simp
qed

theorem scenario_merge_selected_only_witness:
  "generate_test_cases str_scalar ex_ds ex_rng (Reply (JList [weak_password_scenario]))
     signup_requirements [''email''] signup_default_body = Some signup_run \<and>
   (\<exists>kvs body. weak_password_scenario = JObj kvs \<and>
      signup_run ! 8 = JObj (AList.update ''data'' (JObj body) kvs) \<and>
      map_of body ''email'' = Some (JStr ''a@b.c'') \<and>
      map_of body ''password'' = Some (JStr ''StrongPassword123!''))"
proof -
  have len: "length signup_run = 9"
    by (simp add: signup_run_def signup_email_values_def)
  have "\<forall>i<length [weak_password_scenario]. \<exists>kvs body.
        [weak_password_scenario] ! i = JObj kvs \<and>
        signup_run ! (length signup_run - length [weak_password_scenario] + i)
          = JObj (AList.update ''data'' (JObj body) kvs) \<and>
        (\<forall>k. map_of body k =
              (if k \<in> set [''email'']
               then (case declared ([weak_password_scenario] ! i) k of Some v \<Rightarrow> Some v
                     | None \<Rightarrow> map_of signup_default_body k)
               else map_of signup_default_body k))"
    using scenario_merge_selected_only [OF signup_run_eval] by blast
  then obtain kvs body where
    k: "weak_password_scenario = JObj kvs" and
    r: "signup_run ! 8 = JObj (AList.update ''data'' (JObj body) kvs)" and
    m: "\<And>k. map_of body k =
              (if k \<in> set [''email'']
               then (case declared weak_password_scenario k of Some v \<Rightarrow> Some v
                     | None \<Rightarrow> map_of signup_default_body k)
               else map_of signup_default_body k)"
    by (auto simp: len)
  have "map_of body ''email'' = Some (JStr ''a@b.c'')"
    by (simp add: m weak_password_scenario_def)
  moreover have "map_of body ''password'' = Some (JStr ''StrongPassword123!'')"
    by (simp add: m signup_default_body_def)
  ultimately show ?thesis using k r signup_run_eval by blast
qed

text \<open>
  C9 as stated fails: with only \<^verbatim>\<open>email\<close> selected, a scenario that declares
  \<^verbatim>\<open>password = "weak"\<close> is merged into a case whose password is the default one.
\<close>

theorem scenario_override_counterexample:
  "declared weak_password_scenario ''password'' = Some (JStr ''weak'') \<and>
   generate_test_cases str_scalar ex_ds ex_rng (Reply (JList [weak_password_scenario]))
     signup_requirements [''email''] signup_default_body = Some signup_run \<and>
   last signup_run =
     JObj [(''name'', JStr ''Weak password''), (''method'', JStr ''POST''),
           (''data'', JObj [(''email'', JStr ''a@b.c''), (''password'', JStr ''StrongPassword123!''),
                            (''name'', JStr [])]),
           (''expected_status_code'', JInt 400),
           (''expected_behavior'', JStr ''Rejected'')]"
  using signup_run_eval
  by (simp add: weak_password_scenario_def signup_run_def merged_weak_password_scenario_def)

subsection \<open>A selected field without variations\<close>

text \<open>
  C6. The claim: a selected field with an empty variation list is left out of the
  single-field and the combination expansion, and generation succeeds for the other
  fields. The code: the single-field pass does leave it out (its inner loop runs over the
  empty list), but the combination pass calls \<^verbatim>\<open>random.choice\<close> on the empty list as soon
  as the field is in a subset. For the required fields \<^verbatim>\<open>email\<close> (string) and \<^verbatim>\<open>price\<close>
  (number), both selected, the variation list of \<^verbatim>\<open>price\<close> is empty, \<^verbatim>\<open>random.choice\<close>
  raises \<^verbatim>\<open>IndexError\<close>, and \<^verbatim>\<open>generate_test_cases\<close> returns \<^verbatim>\<open>None\<close>, whatever the
  random draws and the reply of the language model are.
\<close>

theorem empty_variations_abort_generation:
  "generate_field_variations d ''price''
      (JObj [(''type'', JStr ''number''), (''description'', JStr ''Price''), (''required'', JBool True)]) = Inr []
   \<and> generate_test_cases_try str_of ds rng oracle priced_requirements [''email'', ''price''] db
       = Inl (IndexError ''Cannot choose from an empty sequence'')
   \<and> generate_test_cases str_of ds rng oracle priced_requirements [''email'', ''price''] db = None"
proof -
  have fv: "variations_loop ds priced_requirements [''email'', ''price''] 0 [] =
     Inr [(''email'', [JStr (faker_email (ds 0)), JStr (faker_company_email (ds 0)), JStr (faker_free_email (ds 0)),
                  JStr (faker_user_name (ds 0) @ ''@'' @ faker_domain_name (ds 0)),
                  JStr ''invalid.email'', JStr ''test@.com'', JStr ''@domain.com'',
                  JStr '' @domain.com'']), (''price'', [])]"
    by (simp add: priced_requirements_def field_info_of_def generate_field_variations_def lower_email lower_price)
  have single: "\<exists>cs. single_field_pass str_of db [''email'', ''price''] [(''email'', vs), (''price'', [])] = Inr cs" for vs
    by simp
  have combo: "combination_pass rng db [''email'', ''price''] [(''email'', v # vs), (''price'', [])] 0
                 = Inl (IndexError ''Cannot choose from an empty sequence'')" for v vs
    by (simp add: combination_pass_def upt_2_3 upt_0_3 combination_body_def random_choice_def)
  have "generate_combination_test_cases str_of rng db [''email'', ''price''] [(''email'', v # vs), (''price'', [])]
          = Inl (IndexError ''Cannot choose from an empty sequence'')" for v vs
    using single [of "v # vs"] combo [of v vs] by (auto simp: generate_combination_test_cases_def)
  then have t: "generate_test_cases_try str_of ds rng oracle priced_requirements [''email'', ''price''] db
       = Inl (IndexError ''Cannot choose from an empty sequence'')"
    by (simp only: generate_test_cases_try_def fv sum.case)
  then have "generate_test_cases str_of ds rng oracle priced_requirements [''email'', ''price''] db = None"
    by (simp only: generate_test_cases_def sum.case)
  moreover have "generate_field_variations d ''price''
      (JObj [(''type'', JStr ''number''), (''description'', JStr ''Price''), (''required'', JBool True)]) = Inr []"
    by (simp add: generate_field_variations_def)
  ultimately show ?thesis using t by simp
qed

subsection \<open>Failure of the advisory call\<close>

text \<open>
  C5, as amended. When the call of the language model raises, or its reply is not JSON,
  \<^verbatim>\<open>generate_test_cases\<close> returns \<^verbatim>\<open>None\<close>: the handler \<^verbatim>\<open>except Exception\<close> covers the
  whole body, so the automatically generated cases are discarded with the exception.
\<close>

theorem oracle_failure_returns_none:
  "generate_test_cases str_of ds rng (CallFailed e) requirements selected_fields default_body = None \<and>
   generate_test_cases str_of ds rng (NotJSON content) requirements selected_fields default_body = None"
  by (simp add: generate_test_cases_def generate_test_cases_try_def split: sum.splits)

lemma signup_run_degraded:
  "generate_test_cases str_scalar ex_ds ex_rng (Reply (JList []))
     signup_requirements [''email''] signup_default_body
   = Some (map JObj (map (single_case str_scalar signup_default_body ''email'') signup_email_values))"
proof -
  have a: "complete_all signup_default_body [''email'']
             (map JObj (map (single_case str_scalar signup_default_body ''email'') signup_email_values))
           = Inr (map JObj (map (single_case str_scalar signup_default_body ''email'') signup_email_values))"
    by (rule complete_all_fixed) (auto simp: complete_single_case)
  show ?thesis
    by (simp only: generate_test_cases_def generate_test_cases_try_def signup_variations
        signup_automated a append_Nil2 sum.case oracle_outcome.case jv.case)
qed

text \<open>
  C5 as stated fails: for the signup requirements with \<^verbatim>\<open>email\<close> selected there are
  eight automatically generated cases (they are returned when the reply is the empty
  list), and none of them is returned when the reply is not JSON or the call raises.
\<close>

theorem oracle_failure_counterexample:
  "generate_test_cases str_scalar ex_ds ex_rng (Reply (JList []))
     signup_requirements [''email''] signup_default_body
   = Some (map JObj (map (single_case str_scalar signup_default_body ''email'') signup_email_values)) \<and>
   length signup_email_values = 8 \<and>
   generate_test_cases str_scalar ex_ds ex_rng (NotJSON ''Sorry, I cannot help with that.'')
     signup_requirements [''email''] signup_default_body = None \<and>
   generate_test_cases str_scalar ex_ds ex_rng (CallFailed (RequestException ''Connection error.''))
     signup_requirements [''email''] signup_default_body = None"
proof -
  have "generate_test_cases str_scalar ex_ds ex_rng (NotJSON ''Sorry, I cannot help with that.'')
     signup_requirements [''email''] signup_default_body = None"
    by (simp only: generate_test_cases_def generate_test_cases_try_def signup_variations
        signup_automated sum.case oracle_outcome.case)
  moreover have "generate_test_cases str_scalar ex_ds ex_rng (CallFailed (RequestException ''Connection error.''))
     signup_requirements [''email''] signup_default_body = None"
    by (simp only: generate_test_cases_def generate_test_cases_try_def signup_variations
        signup_automated sum.case oracle_outcome.case)
  moreover have "length signup_email_values = 8"
    by (simp add: signup_email_values_def)
  ultimately show ?thesis using signup_run_degraded by simp
qed

subsection \<open>Schema extraction\<close>

lemma set_update_cases:
  "(k', v') \<in> set (AList.update k v al) \<Longrightarrow> (k', v') = (k, v) \<or> (k', v') \<in> set al"
  by (induction al) (auto split: if_splits)

lemma copy_key_other:
  "copy_key key info fd = Inr fd' \<Longrightarrow> k \<noteq> key \<Longrightarrow> map_of fd' k = map_of fd k"
  by (auto simp: copy_key_def update_conv' split: sum.splits bool.splits)

lemma any_of_formats_other:
  "any_of_formats ts fd = Inr fd' \<Longrightarrow> k \<noteq> ''format'' \<Longrightarrow> map_of fd' k = map_of fd k"
proof (induction ts arbitrary: fd)
  case Nil
  then show ?case by simp
next
  case (Cons t ts)
  from Cons.prems(1) obtain b where b: "py_in ''format'' t = Inr b"
    by (auto split: sum.splits)
  show ?case
  proof (cases b)
    case True
    with Cons.prems(1) b obtain fmt where
      "any_of_formats ts (AList.update ''format'' fmt fd) = Inr fd'"
      by (auto split: sum.splits)
    from Cons.IH [OF this Cons.prems(2)] show ?thesis
      using Cons.prems(2) by (simp add: update_conv')
  next
    case False
    with Cons.prems(1) b have "any_of_formats ts fd = Inr fd'" by simp
    from Cons.IH [OF this Cons.prems(2)] show ?thesis .
  qed
qed

lemma handle_any_of_example:
  "handle_any_of info fd = Inr fd' \<Longrightarrow> map_of fd' ''example'' = map_of fd ''example''"
  by (auto simp: handle_any_of_def update_conv' split: sum.splits bool.splits
      dest!: any_of_formats_other [where k = "''example''"])

lemma handle_any_of_default:
  "handle_any_of info fd = Inr fd' \<Longrightarrow> map_of fd' ''default'' = map_of fd ''default''"
  by (auto simp: handle_any_of_def update_conv' split: sum.splits bool.splits
      dest!: any_of_formats_other [where k = "''default''"])

lemma handle_any_of_type:
  "handle_any_of info fd = Inr fd' \<Longrightarrow> map_of fd ''type'' \<noteq> None \<Longrightarrow> map_of fd' ''type'' \<noteq> None"
  by (auto simp: handle_any_of_def update_conv' split: sum.splits bool.splits
      dest!: any_of_formats_other [where k = "''type''"])

lemma add_example_result:
  assumes "add_example name fd = Inr fd'" "map_of fd ''type'' = Some ty" "map_of fd ''example'' = None"
  shows "map_of fd' ''type'' = Some ty \<and> map_of fd' ''default'' = map_of fd ''default'' \<and>
         map_of fd' ''example'' =
           (if lower name = ''email'' then Some (JStr ''user@gmail.com'')
            else if str_contains ''password'' (lower name) then Some (JStr ''StrongPassword123!'')
            else if ty = JStr ''string'' then Some (JStr (''Sample '' @ name))
            else if ty = JStr ''boolean''
              then Some (case map_of fd ''default'' of None \<Rightarrow> JBool True | Some d \<Rightarrow> d)
            else None)"
  using assms
  by (auto simp: add_example_def update_conv' py_eq_str_iff split: if_splits)

lemma process_property_example:
  assumes "process_property required name info = Inr fd"
  shows "\<exists>ty. map_of fd ''type'' = Some ty \<and>
         map_of fd ''example'' =
           (if lower name = ''email'' then Some (JStr ''user@gmail.com'')
            else if str_contains ''password'' (lower name) then Some (JStr ''StrongPassword123!'')
            else if ty = JStr ''string'' then Some (JStr (''Sample '' @ name))
            else if ty = JStr ''boolean''
              then Some (case map_of fd ''default'' of None \<Rightarrow> JBool True | Some d \<Rightarrow> d)
            else None)"
proof -
  from assms obtain ty0 title req fd1 fd2 fd3 where
    s1: "copy_key ''format'' info [(''type'', ty0), (''description'', title), (''required'', JBool req)] = Inr fd1" and
    s2: "copy_key ''default'' info fd1 = Inr fd2" and
    s3: "handle_any_of info fd2 = Inr fd3" and
    s4: "add_example name fd3 = Inr fd"
    by (auto simp: process_property_def split: sum.splits)
  have e1: "map_of fd1 ''example'' = None" and t1: "map_of fd1 ''type'' = Some ty0"
    using copy_key_other [OF s1, of "''example''"] copy_key_other [OF s1, of "''type''"] by simp_all
  have e2: "map_of fd2 ''example'' = None" and t2: "map_of fd2 ''type'' = Some ty0"
    using copy_key_other [OF s2, of "''example''"] copy_key_other [OF s2, of "''type''"] e1 t1 by simp_all
  have e3: "map_of fd3 ''example'' = None"
    using handle_any_of_example [OF s3] e2 by simp
  obtain ty where t3: "map_of fd3 ''type'' = Some ty"
    using handle_any_of_type [OF s3] t2 by auto
  from add_example_result [OF s4 t3 e3] show ?thesis by auto
qed

lemma process_properties_examples:
  assumes "process_properties required items acc = Inr sample_data"
    and "(name, spec) \<in> set sample_data"
    and "(name, spec) \<notin> set acc"
  shows "\<exists>info fd. (name, info) \<in> set items \<and> process_property required name info = Inr fd \<and> spec = JObj fd"
  using assms
proof (induction items arbitrary: acc)
  case Nil
  then show ?case by simp
next
  case (Cons item items)
  obtain n i where item: "item = (n, i)" by (cases item)
  from Cons.prems(1) item obtain fd where
    p: "process_property required n i = Inr fd" and
    run: "process_properties required items (AList.update n (JObj fd) acc) = Inr sample_data"
    by (auto split: sum.splits)
  show ?case
  proof (cases "(name, spec) \<in> set (AList.update n (JObj fd) acc)")
    case True
    then have "(name, spec) = (n, JObj fd)"
      using set_update_cases Cons.prems(3) by fastforce
    then show ?thesis using p item by auto
  next
    case False
    from Cons.IH [OF run Cons.prems(2) False] show ?thesis by auto
  qed
qed

text \<open>
  C7, as amended. In the sample data of a successful analysis a field has an example
  exactly when its name is \<^verbatim>\<open>email\<close> (in any case), its name contains \<^verbatim>\<open>password\<close>, or
  its type is \<^verbatim>\<open>string\<close> or \<^verbatim>\<open>boolean\<close>: a fixed address, a fixed password,
  \<^verbatim>\<open>Sample <name>\<close>, or for a boolean the declared default, \<^verbatim>\<open>True\<close> when none is
  declared. A field of any other type (integer, number, array, object, a list of types
  from \<^verbatim>\<open>anyOf\<close>) has no example.
\<close>

theorem sample_data_examples:
  assumes "sample_data_of_schema schema = Inr (Some sample_data)"
    and "(name, spec) \<in> set sample_data"
  shows "\<exists>fd ty. spec = JObj fd \<and> map_of fd ''type'' = Some ty \<and>
         map_of fd ''example'' =
           (if lower name = ''email'' then Some (JStr ''user@gmail.com'')
            else if str_contains ''password'' (lower name) then Some (JStr ''StrongPassword123!'')
            else if ty = JStr ''string'' then Some (JStr (''Sample '' @ name))
            else if ty = JStr ''boolean''
              then Some (case map_of fd ''default'' of None \<Rightarrow> JBool True | Some d \<Rightarrow> d)
            else None)"
proof -
  from assms(1) obtain required items where
    run: "process_properties required items [] = Inr sample_data"
    by (auto simp: sample_data_of_schema_def split: sum.splits bool.splits)
  obtain info fd where "process_property required name info = Inr fd" "spec = JObj fd"
    using process_properties_examples [OF run assms(2)] by auto
  then show ?thesis using process_property_example by blast
qed

lemma lower_age: "lower ''age'' = ''age''" by (simp add: lower_def lower_char_def)

lemma signup_sample_data_eval:
  "sample_data_of_schema signup_schema = Inr (Some signup_sample_data)"
  by (simp add: sample_data_of_schema_def signup_schema_def signup_sample_data_def
      process_property_def copy_key_def handle_any_of_def add_example_def lower_email lower_age)

theorem sample_data_examples_witness:
  "sample_data_of_schema signup_schema = Inr (Some signup_sample_data) \<and>
   (''email'', JObj [(''type'', JStr ''string''), (''description'', JStr ''Email''),
                        (''required'', JBool True), (''format'', JStr ''email''),
                        (''example'', JStr ''user@gmail.com'')]) \<in> set signup_sample_data \<and>
   (\<exists>fd ty. map_of signup_sample_data ''email'' = Some (JObj fd) \<and> map_of fd ''type'' = Some ty \<and>
      map_of fd ''example'' = Some (JStr ''user@gmail.com''))"
proof -
  have m: "(''email'', JObj [(''type'', JStr ''string''), (''description'', JStr ''Email''),
                        (''required'', JBool True), (''format'', JStr ''email''),
                        (''example'', JStr ''user@gmail.com'')]) \<in> set signup_sample_data"
    by (simp add: signup_sample_data_def)
  have v: "map_of signup_sample_data ''email'' = Some (JObj [(''type'', JStr ''string''), (''description'', JStr ''Email''),
                        (''required'', JBool True), (''format'', JStr ''email''),
                        (''example'', JStr ''user@gmail.com'')])"
    by (simp add: signup_sample_data_def)
  from sample_data_examples [OF signup_sample_data_eval m]
  have "\<exists>fd ty. map_of signup_sample_data ''email'' = Some (JObj fd) \<and> map_of fd ''type'' = Some ty \<and>
      map_of fd ''example'' = Some (JStr ''user@gmail.com'')"
    using v by (auto simp: lower_email)
  then show ?thesis using signup_sample_data_eval m by blast
qed

text \<open>
  C7 as stated fails: the required integer field \<^verbatim>\<open>age\<close> of the signup schema comes out
  of the extraction without an example.
\<close>

theorem example_absent_counterexample:
  "sample_data_of_schema signup_schema =
     Inr (Some [(''email'', JObj [(''type'', JStr ''string''), (''description'', JStr ''Email''),
                        (''required'', JBool True), (''format'', JStr ''email''),
                        (''example'', JStr ''user@gmail.com'')]),
                (''age'', JObj [(''type'', JStr ''integer''), (''description'', JStr ''Age''),
                      (''required'', JBool True)])]) \<and>
   map_of [(''type'', JStr ''integer''), (''description'', JStr ''Age''), (''required'', JBool True)]
     ''example'' = None"
  using signup_sample_data_eval by (simp add: signup_sample_data_def)

subsection \<open>Executor\<close>

lemma lower_POST: "lower ''POST'' = ''post''" by code_simp

lemma single_case_request:
  "request_of str_of endpoint (single_case str_of db f v)
   = Inr (Request ''POST'' endpoint (Json (JObj (AList.update f v db))))"
  by (simp add: request_of_def single_case_def lower_POST)

lemma execute_loop_results:
  "snd (execute_loop str_of net now endpoint i cs (h, rs)) = rs @ cs"
  by (induction cs arbitrary: i h rs) auto

lemma execute_loop_untouched:
  "a \<notin> set cs \<Longrightarrow> fst (execute_loop str_of net now endpoint i cs (h, rs)) a = h a"
  by (induction cs arbitrary: i h rs) auto

lemma execute_loop_store:
  "distinct cs \<Longrightarrow> j < length cs \<Longrightarrow>
   fst (execute_loop str_of net now endpoint i cs (h, rs)) (cs ! j)
     = run_case str_of endpoint (net (i + j)) (now (i + j)) (h (cs ! j))"
proof (induction cs arbitrary: i j h rs)
  case Nil
  then show ?case by simp
next
  case (Cons a cs)
  let ?h = "h(a := run_case str_of endpoint (net i) (now i) (h a))"
  show ?case
  proof (cases j)
    case 0
    have "fst (execute_loop str_of net now endpoint (Suc i) cs (?h, rs @ [a])) a = ?h a"
      using Cons.prems(1) by (intro execute_loop_untouched) simp
    then show ?thesis using 0 by simp
  next
    case (Suc j')
    with Cons.prems have d: "distinct cs" and j': "j' < length cs" and ne: "cs ! j' \<noteq> a"
      by auto
    have "fst (execute_loop str_of net now endpoint (Suc i) cs (?h, rs @ [a])) (cs ! j')
            = run_case str_of endpoint (net (Suc i + j')) (now (Suc i + j')) (?h (cs ! j'))"
      by (rule Cons.IH [OF d j'])
    then show ?thesis using Suc ne by simp
  qed
qed

text \<open>The four ways in which the run of one case ends.\<close>

lemma run_case_not_sent:
  assumes "request_of str_of endpoint c = Inl e"
  shows "run_case str_of endpoint send stamp c =
           AList.update ''test_result'' (failed_result e stamp)
             (AList.update ''actual_response'' (JStr (error_str e))
                (AList.update ''actual_status_code'' (JStr ''Error'') c))"
  using assms by (simp add: run_case_def try_case_def failed_result_def)

lemma run_case_transport_failure:
  assumes "request_of str_of endpoint c = Inr req" "send req = Inl e"
  shows "run_case str_of endpoint send stamp c =
           AList.update ''test_result'' (failed_result e stamp)
             (AList.update ''actual_response'' (JStr (error_str e))
                (AList.update ''actual_status_code'' (JStr ''Error'') c))"
  using assms by (simp add: run_case_def try_case_def failed_result_def)

lemma run_case_answered:
  assumes "request_of str_of endpoint c = Inr req" "send req = Inr resp"
    and "map_of c ''expected_status_code'' = Some expected"
  shows "run_case str_of endpoint send stamp c =
           AList.update ''test_result''
             (JObj [(''passed'', JBool (py_eq_int expected (status_code resp))),
                    (''status_code_match'', JBool (py_eq_int expected (status_code resp))),
                    (''timestamp'', JStr stamp),
                    (''notes'', JStr (''Expected '' @ str_of expected @ '', got ''
                                       @ str_of (JInt (status_code resp))))])
             (AList.update ''actual_response''
                (case json_body resp of Some v \<Rightarrow> v | None \<Rightarrow> JStr (text_body resp))
                (AList.update ''actual_status_code'' (JInt (status_code resp)) c))"
  using assms by (simp add: run_case_def try_case_def update_conv' Let_def)

lemma run_case_no_expectation:
  assumes "request_of str_of endpoint c = Inr req" "send req = Inr resp"
    and "map_of c ''expected_status_code'' = None"
  shows "run_case str_of endpoint send stamp c =
           AList.update ''test_result'' (failed_result (KeyError ''expected_status_code'') stamp)
             (AList.update ''actual_response'' (JStr (error_str (KeyError ''expected_status_code'')))
                (AList.update ''actual_status_code'' (JStr ''Error'')
                   (AList.update ''actual_response''
                      (case json_body resp of Some v \<Rightarrow> v | None \<Rightarrow> JStr (text_body resp))
                      (AList.update ''actual_status_code'' (JInt (status_code resp)) c))))"
  using assms by (simp add: run_case_def try_case_def update_conv' Let_def failed_result_def)

lemma run_case_scored:
  "map_of (run_case str_of endpoint send stamp c) ''test_result'' \<noteq> None \<and>
   map_of (run_case str_of endpoint send stamp c) ''actual_status_code'' \<noteq> None"
  by (auto simp: run_case_def try_case_def update_conv' Let_def split: sum.splits prod.splits)

lemma run_case_other_keys:
  assumes "k \<noteq> ''actual_status_code''" "k \<noteq> ''actual_response''" "k \<noteq> ''test_result''"
  shows "map_of (run_case str_of endpoint send stamp c) k = map_of c k"
  using assms
  by (auto simp: run_case_def try_case_def update_conv' Let_def split: sum.splits prod.splits)

text \<open>
  C8. The test cases are distinct objects. When the request of case \<open>i\<close> is sent and the
  transport raises, the run still returns every case, in order; case \<open>i\<close> has
  \<^verbatim>\<open>actual_status_code\<close> \<^verbatim>\<open>"Error"\<close>, the message of the exception as its response and in
  \<^verbatim>\<open>test_result.error\<close>, and \<^verbatim>\<open>test_result.passed\<close> false. Every other case \<open>j\<close> is what
  running it alone gives, from its own request, response and time: when its request is
  answered and it has an expected status, its \<^verbatim>\<open>actual_status_code\<close> is the status of
  its response, its \<^verbatim>\<open>actual_response\<close> the body, and \<^verbatim>\<open>passed\<close> and
  \<^verbatim>\<open>status_code_match\<close> say whether the expected status equals that status; when its own
  transport raises, or its request cannot be built, or it has no expected status, it is
  marked \<^verbatim>\<open>"Error"\<close> with its own message. The other entries of every case stay as they
  are, and nothing else in the store changes.
\<close>

theorem transport_failure_isolated:
  assumes "distinct test_cases"
    and "i < length test_cases"
    and "request_of str_of endpoint (h (test_cases ! i)) = Inr req"
    and "net i req = Inl e"
  shows "\<exists>h'. execute_test_cases str_of net now endpoint test_cases h = (h', test_cases) \<and>
     map_of (h' (test_cases ! i)) ''actual_status_code'' = Some (JStr ''Error'') \<and>
     map_of (h' (test_cases ! i)) ''actual_response'' = Some (JStr (error_str e)) \<and>
     map_of (h' (test_cases ! i)) ''test_result'' =
       Some (JObj [(''passed'', JBool False), (''error'', JStr (error_str e)),
                   (''timestamp'', JStr (now i))]) \<and>
     (\<forall>j<length test_cases. j \<noteq> i \<longrightarrow>
        h' (test_cases ! j) = run_case str_of endpoint (net j) (now j) (h (test_cases ! j)) \<and>
        map_of (h' (test_cases ! j)) ''test_result'' \<noteq> None) \<and>
     (\<forall>j<length test_cases. \<forall>rq resp expected.
        request_of str_of endpoint (h (test_cases ! j)) = Inr rq \<longrightarrow>
        net j rq = Inr resp \<longrightarrow>
        map_of (h (test_cases ! j)) ''expected_status_code'' = Some expected \<longrightarrow>
          map_of (h' (test_cases ! j)) ''actual_status_code'' = Some (JInt (status_code resp)) \<and>
          map_of (h' (test_cases ! j)) ''actual_response'' =
            Some (case json_body resp of Some v \<Rightarrow> v | None \<Rightarrow> JStr (text_body resp)) \<and>
          map_of (h' (test_cases ! j)) ''test_result'' =
            Some (JObj [(''passed'', JBool (py_eq_int expected (status_code resp))),
                        (''status_code_match'', JBool (py_eq_int expected (status_code resp))),
                        (''timestamp'', JStr (now j)),
                        (''notes'', JStr (''Expected '' @ str_of expected @ '', got ''
                                           @ str_of (JInt (status_code resp))))])) \<and>
     (\<forall>j<length test_cases. \<forall>e'.
        (request_of str_of endpoint (h (test_cases ! j)) = Inl e' \<or>
         (\<exists>rq. request_of str_of endpoint (h (test_cases ! j)) = Inr rq \<and> net j rq = Inl e') \<or>
         (\<exists>rq resp. request_of str_of endpoint (h (test_cases ! j)) = Inr rq \<and> net j rq = Inr resp \<and>
            map_of (h (test_cases ! j)) ''expected_status_code'' = None \<and>
            e' = KeyError ''expected_status_code'')) \<longrightarrow>
          map_of (h' (test_cases ! j)) ''actual_status_code'' = Some (JStr ''Error'') \<and>
          map_of (h' (test_cases ! j)) ''actual_response'' = Some (JStr (error_str e')) \<and>
          map_of (h' (test_cases ! j)) ''test_result'' =
            Some (JObj [(''passed'', JBool False), (''error'', JStr (error_str e')),
                        (''timestamp'', JStr (now j))])) \<and>
     (\<forall>j<length test_cases. \<forall>k.
        k \<noteq> ''actual_status_code'' \<longrightarrow> k \<noteq> ''actual_response'' \<longrightarrow> k \<noteq> ''test_result'' \<longrightarrow>
          map_of (h' (test_cases ! j)) k = map_of (h (test_cases ! j)) k) \<and>
     (\<forall>a. a \<notin> set test_cases \<longrightarrow> h' a = h a)"
proof -
  let ?r = "execute_loop str_of net now endpoint 0 test_cases (h, [])"
  let ?c = "\<lambda>j. h (test_cases ! j)"
  have res: "snd ?r = test_cases"
    using execute_loop_results [of str_of net now endpoint 0 test_cases h "[]"] by simp
  have at: "fst ?r (test_cases ! j) = run_case str_of endpoint (net j) (now j) (?c j)"
    if "j < length test_cases" for j
    using execute_loop_store [OF assms(1) that, of str_of net now endpoint 0 h "[]"] by simp
  have err: "map_of (fst ?r (test_cases ! j)) ''actual_status_code'' = Some (JStr ''Error'') \<and>
          map_of (fst ?r (test_cases ! j)) ''actual_response'' = Some (JStr (error_str e')) \<and>
          map_of (fst ?r (test_cases ! j)) ''test_result'' =
            Some (JObj [(''passed'', JBool False), (''error'', JStr (error_str e')),
                        (''timestamp'', JStr (now j))])"
    if j: "j < length test_cases" and
      c: "request_of str_of endpoint (?c j) = Inl e' \<or>
         (\<exists>rq. request_of str_of endpoint (?c j) = Inr rq \<and> net j rq = Inl e') \<or>
         (\<exists>rq resp. request_of str_of endpoint (?c j) = Inr rq \<and> net j rq = Inr resp \<and>
            map_of (?c j) ''expected_status_code'' = None \<and> e' = KeyError ''expected_status_code'')"
    for j e'
  proof -
    from c consider
      (a) "request_of str_of endpoint (?c j) = Inl e'" |
      (b) rq where "request_of str_of endpoint (?c j) = Inr rq" "net j rq = Inl e'" |
      (c) rq resp where "request_of str_of endpoint (?c j) = Inr rq" "net j rq = Inr resp"
        "map_of (?c j) ''expected_status_code'' = None" "e' = KeyError ''expected_status_code''"
      by blast
    then show ?thesis
    proof cases
      case a
      show ?thesis
        unfolding at [OF j] run_case_not_sent [of str_of endpoint "?c j" e' "net j" "now j", OF a]
        by (simp add: update_conv' failed_result_def)
    next
      case b
      show ?thesis
        unfolding at [OF j]
          run_case_transport_failure [of str_of endpoint "?c j" rq "net j" e' "now j", OF b]
        by (simp add: update_conv' failed_result_def)
    next
      case c
      show ?thesis
        unfolding at [OF j]
          run_case_no_expectation [of str_of endpoint "?c j" rq "net j" resp "now j", OF c(1,2,3)]
        by (simp add: update_conv' failed_result_def c(4))
    qed
  qed
  have 123: "map_of (fst ?r (test_cases ! i)) ''actual_status_code'' = Some (JStr ''Error'') \<and>
     map_of (fst ?r (test_cases ! i)) ''actual_response'' = Some (JStr (error_str e)) \<and>
     map_of (fst ?r (test_cases ! i)) ''test_result'' =
       Some (JObj [(''passed'', JBool False), (''error'', JStr (error_str e)),
                   (''timestamp'', JStr (now i))])"
    using err [OF assms(2), of e] assms(3) assms(4) by blast
  have 4: "\<forall>j<length test_cases. j \<noteq> i \<longrightarrow>
        fst ?r (test_cases ! j) = run_case str_of endpoint (net j) (now j) (?c j) \<and>
        map_of (fst ?r (test_cases ! j)) ''test_result'' \<noteq> None"
    using at run_case_scored by simp
  have 5: "\<forall>j<length test_cases. \<forall>rq resp expected.
        request_of str_of endpoint (?c j) = Inr rq \<longrightarrow>
        net j rq = Inr resp \<longrightarrow>
        map_of (?c j) ''expected_status_code'' = Some expected \<longrightarrow>
          map_of (fst ?r (test_cases ! j)) ''actual_status_code'' = Some (JInt (status_code resp)) \<and>
          map_of (fst ?r (test_cases ! j)) ''actual_response'' =
            Some (case json_body resp of Some v \<Rightarrow> v | None \<Rightarrow> JStr (text_body resp)) \<and>
          map_of (fst ?r (test_cases ! j)) ''test_result'' =
            Some (JObj [(''passed'', JBool (py_eq_int expected (status_code resp))),
                        (''status_code_match'', JBool (py_eq_int expected (status_code resp))),
                        (''timestamp'', JStr (now j)),
                        (''notes'', JStr (''Expected '' @ str_of expected @ '', got ''
                                           @ str_of (JInt (status_code resp))))])"
  proof (intro allI impI)
    fix j rq resp expected
    assume j: "j < length test_cases"
      and a: "request_of str_of endpoint (?c j) = Inr rq" "net j rq = Inr resp"
        "map_of (?c j) ''expected_status_code'' = Some expected"
    show "map_of (fst ?r (test_cases ! j)) ''actual_status_code'' = Some (JInt (status_code resp)) \<and>
          map_of (fst ?r (test_cases ! j)) ''actual_response'' =
            Some (case json_body resp of Some v \<Rightarrow> v | None \<Rightarrow> JStr (text_body resp)) \<and>
          map_of (fst ?r (test_cases ! j)) ''test_result'' =
            Some (JObj [(''passed'', JBool (py_eq_int expected (status_code resp))),
                        (''status_code_match'', JBool (py_eq_int expected (status_code resp))),
                        (''timestamp'', JStr (now j)),
                        (''notes'', JStr (''Expected '' @ str_of expected @ '', got ''
                                           @ str_of (JInt (status_code resp))))])"
      unfolding at [OF j]
        run_case_answered [of str_of endpoint "?c j" rq "net j" resp expected "now j", OF a]
      by (simp add: update_conv')
  qed
  have 6: "\<forall>j<length test_cases. \<forall>e'.
        (request_of str_of endpoint (?c j) = Inl e' \<or>
         (\<exists>rq. request_of str_of endpoint (?c j) = Inr rq \<and> net j rq = Inl e') \<or>
         (\<exists>rq resp. request_of str_of endpoint (?c j) = Inr rq \<and> net j rq = Inr resp \<and>
            map_of (?c j) ''expected_status_code'' = None \<and>
            e' = KeyError ''expected_status_code'')) \<longrightarrow>
          map_of (fst ?r (test_cases ! j)) ''actual_status_code'' = Some (JStr ''Error'') \<and>
          map_of (fst ?r (test_cases ! j)) ''actual_response'' = Some (JStr (error_str e')) \<and>
          map_of (fst ?r (test_cases ! j)) ''test_result'' =
            Some (JObj [(''passed'', JBool False), (''error'', JStr (error_str e')),
                        (''timestamp'', JStr (now j))])"
    using err by blast
  have 7: "\<forall>j<length test_cases. \<forall>k.
        k \<noteq> ''actual_status_code'' \<longrightarrow> k \<noteq> ''actual_response'' \<longrightarrow> k \<noteq> ''test_result'' \<longrightarrow>
          map_of (fst ?r (test_cases ! j)) k = map_of (?c j) k"
    using at run_case_other_keys by simp
  have 8: "\<forall>a. a \<notin> set test_cases \<longrightarrow> fst ?r a = h a"
    using execute_loop_untouched by simp
  have "execute_test_cases str_of net now endpoint test_cases h = (fst ?r, test_cases)"
    unfolding execute_test_cases_def using res by (metis prod.collapse)
  with 123 4 5 6 7 8 show ?thesis by blast
qed

theorem transport_failure_isolated_witness:
  "distinct [0, 1, 2::nat] \<and> (0::nat) < length [0, 1, 2::nat] \<and>
   request_of str_scalar ex_endpoint (ex_store ([0, 1, 2] ! 0))
     = Inr (Request ''POST'' ex_endpoint
              (Json (JObj (AList.update ''email'' (JStr ''amy@example.org'') signup_default_body)))) \<and>
   ex_net 0 (Request ''POST'' ex_endpoint
              (Json (JObj (AList.update ''email'' (JStr ''amy@example.org'') signup_default_body))))
     = Inl (RequestException ''Connection refused'') \<and>
   (\<exists>h'. execute_test_cases str_scalar ex_net ex_now ex_endpoint [0, 1, 2] ex_store = (h', [0, 1, 2]) \<and>
      map_of (h' 0) ''actual_status_code'' = Some (JStr ''Error'') \<and>
      map_of (h' 0) ''test_result'' =
        Some (JObj [(''passed'', JBool False), (''error'', JStr ''Connection refused''),
                    (''timestamp'', JStr (ex_now 0))]) \<and>
      map_of (h' 1) ''actual_status_code'' = Some (JInt 200) \<and>
      map_of (h' 1) ''test_result'' =
        Some (JObj [(''passed'', JBool True), (''status_code_match'', JBool True),
                    (''timestamp'', JStr (ex_now 1)),
                    (''notes'', JStr (''Expected '' @ show_int 200 @ '', got '' @ show_int 200))]) \<and>
      map_of (h' 2) ''actual_status_code'' = Some (JInt 200) \<and>
      map_of (h' 2) ''test_result'' =
        Some (JObj [(''passed'', JBool False), (''status_code_match'', JBool False),
                    (''timestamp'', JStr (ex_now 2)),
                    (''notes'', JStr (''Expected '' @ show_int 400 @ '', got '' @ show_int 200))]))"
proof -
  let ?rq = "\<lambda>f v. Request ''POST'' ex_endpoint (Json (JObj (AList.update f v signup_default_body)))"
  have d: "distinct [0, 1, 2::nat]" and l: "(0::nat) < length [0, 1, 2::nat]" by simp_all
  have r: "request_of str_scalar ex_endpoint (ex_store ([0, 1, 2] ! 0)) = Inr (?rq ''email'' (JStr ''amy@example.org''))"
    by (simp add: ex_store_def single_case_request)
  have n: "ex_net 0 (?rq ''email'' (JStr ''amy@example.org'')) = Inl (RequestException ''Connection refused'')"
    by (simp add: ex_net_def)
  obtain h' where
    run: "execute_test_cases str_scalar ex_net ex_now ex_endpoint [0, 1, 2] ex_store = (h', [0, 1, 2])" and
    a: "map_of (h' ([0, 1, 2] ! 0)) ''actual_status_code'' = Some (JStr ''Error'')" and
    t: "map_of (h' ([0, 1, 2] ! 0)) ''test_result'' =
       Some (JObj [(''passed'', JBool False),
                   (''error'', JStr (error_str (RequestException ''Connection refused''))),
                   (''timestamp'', JStr (ex_now 0))])" and
    o: "\<forall>j<length [0, 1, 2::nat]. \<forall>rq resp expected.
        request_of str_scalar ex_endpoint (ex_store ([0, 1, 2] ! j)) = Inr rq \<longrightarrow>
        ex_net j rq = Inr resp \<longrightarrow>
        map_of (ex_store ([0, 1, 2] ! j)) ''expected_status_code'' = Some expected \<longrightarrow>
          map_of (h' ([0, 1, 2] ! j)) ''actual_status_code'' = Some (JInt (status_code resp)) \<and>
          map_of (h' ([0, 1, 2] ! j)) ''actual_response'' =
            Some (case json_body resp of Some v \<Rightarrow> v | None \<Rightarrow> JStr (text_body resp)) \<and>
          map_of (h' ([0, 1, 2] ! j)) ''test_result'' =
            Some (JObj [(''passed'', JBool (py_eq_int expected (status_code resp))),
                        (''status_code_match'', JBool (py_eq_int expected (status_code resp))),
                        (''timestamp'', JStr (ex_now j)),
                        (''notes'', JStr (''Expected '' @ str_scalar expected @ '', got ''
                                           @ str_scalar (JInt (status_code resp))))])"
    using transport_failure_isolated [of "[0, 1, 2]" 0 str_scalar ex_endpoint ex_store
        "?rq ''email'' (JStr ''amy@example.org'')"
        ex_net "RequestException ''Connection refused''" ex_now, OF d l r n]
    by (elim exE conjE) (rule that, assumption+)
  have q1: "request_of str_scalar ex_endpoint (ex_store ([0, 1, 2] ! 1)) = Inr (?rq ''email'' (JStr ''invalid.email''))"
    and n1: "ex_net 1 (?rq ''email'' (JStr ''invalid.email'')) = Inr ex_response"
    by (simp_all add: ex_store_def single_case_request ex_net_def)
  have e1: "map_of (ex_store ([0, 1, 2] ! 1)) ''expected_status_code'' = Some (JInt 200)"
    by (simp add: ex_store_def single_case_def)
  have q2: "request_of str_scalar ex_endpoint (ex_store ([0, 1, 2] ! 2)) = Inr (?rq ''name'' (JStr []))"
    and n2: "ex_net 2 (?rq ''name'' (JStr [])) = Inr ex_response"
    by (simp_all add: ex_store_def single_case_request ex_net_def)
  have e2: "map_of (ex_store ([0, 1, 2] ! 2)) ''expected_status_code'' = Some (JInt 400)"
    by (simp add: ex_store_def single_case_def)
  have s1: "map_of (h' 1) ''actual_status_code'' = Some (JInt 200) \<and>
      map_of (h' 1) ''test_result'' =
        Some (JObj [(''passed'', JBool True), (''status_code_match'', JBool True),
                    (''timestamp'', JStr (ex_now 1)),
                    (''notes'', JStr (''Expected '' @ show_int 200 @ '', got '' @ show_int 200))])"
    using o [rule_format, of 1, OF _ q1 n1 e1] by (simp add: ex_response_def)
  have s2: "map_of (h' 2) ''actual_status_code'' = Some (JInt 200) \<and>
      map_of (h' 2) ''test_result'' =
        Some (JObj [(''passed'', JBool False), (''status_code_match'', JBool False),
                    (''timestamp'', JStr (ex_now 2)),
                    (''notes'', JStr (''Expected '' @ show_int 400 @ '', got '' @ show_int 200))])"
    using o [rule_format, of 2, OF _ q2 n2 e2] by (simp add: ex_response_def)
  show ?thesis using d l r n run a t s1 s2 by simp
qed

subsection \<open>Report aggregator\<close>

lemma result_entry_passed:
  assumes "result_shape test"
  shows "\<exists>p. result_entry test ''passed'' (JBool False) = Inr p \<and> truthy p = case_passed test"
proof -
  from assms obtain kvs where t: "test = JObj kvs"
    by (cases test) (auto simp: result_shape_def)
  show ?thesis
  proof (cases "map_of kvs ''test_result''")
    case None
    then show ?thesis using t by (simp add: result_entry_def case_passed_def)
  next
    case (Some tr)
    with assms t obtain d where d: "tr = JObj d"
      by (cases tr) (auto simp: result_shape_def)
    show ?thesis using t Some d
      by (cases "map_of d ''passed''") (simp_all add: result_entry_def case_passed_def)
  qed
qed

lemma failed_entry_listed:
  assumes "result_shape test" "digest_fields test"
  shows "\<exists>entry. failed_entry test = Inr entry \<and> listed test entry"
proof -
  from assms(1) obtain kvs where t: "test = JObj kvs"
    by (cases test) (auto simp: result_shape_def)
  from assms(2) t obtain name expected actual where
    f: "map_of kvs ''name'' = Some name" "map_of kvs ''expected_status_code'' = Some expected"
    "map_of kvs ''actual_status_code'' = Some actual"
    by (auto simp: digest_fields_def)
  show ?thesis
  proof (cases "map_of kvs ''test_result''")
    case None
    then show ?thesis using t f by (simp add: failed_entry_def result_entry_def listed_def)
  next
    case (Some tr)
    with assms(1) t obtain d where d: "tr = JObj d"
      by (cases tr) (auto simp: result_shape_def)
    show ?thesis using t f Some d
      by (cases "map_of d ''error''") (simp_all add: failed_entry_def result_entry_def listed_def)
  qed
qed

lemma count_passed_filter:
  "\<forall>t\<in>set results. result_shape t \<Longrightarrow>
   count_passed results = Inr (length (filter case_passed results))"
proof (induction results)
  case Nil
  then show ?case by simp
next
  case (Cons t ts)
  obtain p where "result_entry t ''passed'' (JBool False) = Inr p" "truthy p = case_passed t"
    using result_entry_passed [of t] Cons.prems by auto
  then show ?case using Cons by simp
qed

lemma failed_tests_summary_filter:
  "\<forall>t\<in>set results. result_shape t \<and> (\<not> case_passed t \<longrightarrow> digest_fields t) \<Longrightarrow>
   \<exists>entries. failed_tests_summary results = Inr entries \<and>
     list_all2 listed (filter (\<lambda>t. \<not> case_passed t) results) entries"
proof (induction results)
  case Nil
  then show ?case by simp
next
  case (Cons t ts)
  obtain p where p: "result_entry t ''passed'' (JBool False) = Inr p" "truthy p = case_passed t"
    using result_entry_passed [of t] Cons.prems by auto
  obtain entries where e: "failed_tests_summary ts = Inr entries"
     "list_all2 listed (filter (\<lambda>t. \<not> case_passed t) ts) entries"
    using Cons by auto
  show ?case
  proof (cases "case_passed t")
    case True
    then show ?thesis using p e by simp
  next
    case False
    obtain entry where "failed_entry t = Inr entry" "listed t entry"
      using failed_entry_listed [of t] Cons.prems False by auto
    then show ?thesis using False p e by simp
  qed
qed

text \<open>
  C10, as amended. For executed results (dictionaries whose \<^verbatim>\<open>test_result\<close> is a
  dictionary when present) in which every case that did not pass has the
  \<^verbatim>\<open>name\<close>, \<^verbatim>\<open>expected_status_code\<close> and \<^verbatim>\<open>actual_status_code\<close> that the digest reads,
  the report is produced, and it is this one: \<^verbatim>\<open>passed_tests\<close> is the number of cases
  whose \<^verbatim>\<open>test_result\<close> exists with a true \<^verbatim>\<open>passed\<close> entry (true as Python's \<^verbatim>\<open>if\<close>
  takes it; the executor writes booleans); \<^verbatim>\<open>failed_tests\<close> is the number of all other
  cases, among them those without \<^verbatim>\<open>test_result\<close> or without \<^verbatim>\<open>passed\<close>;
  \<^verbatim>\<open>failed_tests_summary\<close> lists each of these, in order, with its name, its expected and
  actual status and its error (\<^verbatim>\<open>No error message\<close> when it has none); and
  \<^verbatim>\<open>total_tests\<close> is the sum of the two counts.
\<close>

theorem report_counts:
  assumes "\<forall>t\<in>set results. result_shape t \<and> (\<not> case_passed t \<longrightarrow> digest_fields t)"
  shows "\<exists>entries.
     generate_test_report percent stamp results =
       Inr [(''summary'',
               JObj [(''total_tests'', JInt (int (length results))),
                     (''passed_tests'', JInt (int (length (filter case_passed results)))),
                     (''failed_tests'', JInt (int (length (filter (\<lambda>t. \<not> case_passed t) results)))),
                     (''success_rate'',
                        JStr (if 0 < length results
                              then percent (length (filter case_passed results)) (length results)
                              else ''0%''))]),
            (''timestamp'', JStr stamp),
            (''test_results'', JList results),
            (''failed_tests_summary'', JList entries)] \<and>
     list_all2 listed (filter (\<lambda>t. \<not> case_passed t) results) entries \<and>
     length entries = length (filter (\<lambda>t. \<not> case_passed t) results) \<and>
     length results = length (filter case_passed results) + length (filter (\<lambda>t. \<not> case_passed t) results)"
proof -
  have shape: "\<forall>t\<in>set results. result_shape t"
    using assms by blast
  have c: "count_passed results = Inr (length (filter case_passed results))"
    using count_passed_filter [OF shape] .
  obtain entries where f: "failed_tests_summary results = Inr entries" and
    l: "list_all2 listed (filter (\<lambda>t. \<not> case_passed t) results) entries"
    using failed_tests_summary_filter [OF assms] by blast
  have total: "length results = length (filter case_passed results) + length (filter (\<lambda>t. \<not> case_passed t) results)"
    using sum_length_filter_compl [of case_passed results] by simp
  then have diff: "int (length results) - int (length (filter case_passed results))
                 = int (length (filter (\<lambda>t. \<not> case_passed t) results))"
    by linarith
  have "generate_test_report percent stamp results =
       Inr [(''summary'',
               JObj [(''total_tests'', JInt (int (length results))),
                     (''passed_tests'', JInt (int (length (filter case_passed results)))),
                     (''failed_tests'', JInt (int (length (filter (\<lambda>t. \<not> case_passed t) results)))),
                     (''success_rate'',
                        JStr (if 0 < length results
                              then percent (length (filter case_passed results)) (length results)
                              else ''0%''))]),
            (''timestamp'', JStr stamp),
            (''test_results'', JList results),
            (''failed_tests_summary'', JList entries)]"
    using c f by (simp add: generate_test_report_def Let_def diff)
  then show ?thesis
    using l total list_all2_lengthD [OF l] by auto
qed

text \<open>The sample execution and the rate of one passed case in three.\<close>

lemma ex_results_eval: "ex_results = [JObj ex_result0, JObj ex_result1, JObj ex_result2]"
proof -
  have r0: "run_case str_scalar ex_endpoint (ex_net 0) (ex_now 0) (ex_store 0) = ex_result0"
    unfolding ex_store_def run_case_def try_case_def
    by (simp add: single_case_request)
       (simp add: ex_net_def single_case_def signup_default_body_def ex_result0_def)
  have r1: "run_case str_scalar ex_endpoint (ex_net 1) (ex_now 1) (ex_store 1) = ex_result1"
    unfolding ex_store_def run_case_def try_case_def
    by (simp add: single_case_request)
       (simp add: ex_net_def ex_response_def single_case_def signup_default_body_def ex_result1_def)
  have r2: "run_case str_scalar ex_endpoint (ex_net 2) (ex_now 2) (ex_store 2) = ex_result2"
    unfolding ex_store_def run_case_def try_case_def
    by (simp add: single_case_request)
       (simp add: ex_net_def ex_response_def single_case_def signup_default_body_def ex_result2_def)
  have d: "distinct [0, 1, 2::nat]" by simp
  have at: "fst (execute_loop str_scalar ex_net ex_now ex_endpoint 0 [0, 1, 2] (ex_store, [])) ([0, 1, 2] ! j)
      = run_case str_scalar ex_endpoint (ex_net j) (ex_now j) (ex_store ([0, 1, 2] ! j))"
    if "j < 3" for j
    using execute_loop_store [OF d, of j str_scalar ex_net ex_now ex_endpoint 0 ex_store "[]"] that
    by simp
  have s: "snd (execute_loop str_scalar ex_net ex_now ex_endpoint 0 [0, 1, 2] (ex_store, [])) = [0, 1, 2]"
    using execute_loop_results [of str_scalar ex_net ex_now ex_endpoint 0 "[0, 1, 2]" ex_store "[]"]
    by simp
  show ?thesis
    unfolding ex_results_def results_of_def execute_test_cases_def s
    using at [of 0] at [of 1] at [of 2] r0 r1 r2 by simp
qed

lemma digit_three: "char_of (51::nat) = CHR ''3''"
  by code_simp

lemma percent_one_third: "percent_exact (Suc 0) 3 = ''33.33%''"
  by (simp add: percent_exact_def two_digits_def show_nat.simps [of 33] show_nat.simps [of 3] digit_three)

theorem report_counts_witness:
  "result_shape (JObj ex_result0) \<and> \<not> case_passed (JObj ex_result0) \<and> digest_fields (JObj ex_result0) \<and>
   result_shape (JObj ex_result1) \<and> case_passed (JObj ex_result1) \<and>
   result_shape (JObj ex_result2) \<and> \<not> case_passed (JObj ex_result2) \<and> digest_fields (JObj ex_result2) \<and>
   ex_results = [JObj ex_result0, JObj ex_result1, JObj ex_result2] \<and>
   generate_test_report percent_exact ''2024-05-01T12:00:09'' ex_results =
     Inr [(''summary'',
             JObj [(''total_tests'', JInt 3), (''passed_tests'', JInt 1), (''failed_tests'', JInt 2),
                   (''success_rate'', JStr ''33.33%'')]),
          (''timestamp'', JStr ''2024-05-01T12:00:09''),
          (''test_results'', JList ex_results),
          (''failed_tests_summary'',
             JList [JObj [(''name'', JStr ''Test email with value: amy@example.org''),
                          (''expected_status'', JInt 200), (''actual_status'', JStr ''Error''),
                          (''error'', JStr ''Connection refused'')],
                    JObj [(''name'', JStr ''Test name with value: ''),
                          (''expected_status'', JInt 400), (''actual_status'', JInt 200),
                          (''error'', JStr ''No error message'')]])]"
proof -
  have e: "result_shape (JObj ex_result0)" "\<not> case_passed (JObj ex_result0)" "digest_fields (JObj ex_result0)"
    "result_shape (JObj ex_result1)" "case_passed (JObj ex_result1)"
    "result_shape (JObj ex_result2)" "\<not> case_passed (JObj ex_result2)" "digest_fields (JObj ex_result2)"
    by (simp_all add: ex_result0_def ex_result1_def ex_result2_def result_shape_def digest_fields_def
        case_passed_def)
  have all: "\<forall>t\<in>set ex_results. result_shape t \<and> (\<not> case_passed t \<longrightarrow> digest_fields t)"
    unfolding ex_results_eval using e by simp
  have p: "filter case_passed ex_results = [JObj ex_result1]"
    and f: "filter (\<lambda>t. \<not> case_passed t) ex_results = [JObj ex_result0, JObj ex_result2]"
    unfolding ex_results_eval using e by simp_all
  have len: "length ex_results = 3" unfolding ex_results_eval by simp
  obtain entries where
    rep: "generate_test_report percent_exact ''2024-05-01T12:00:09'' ex_results =
       Inr [(''summary'',
               JObj [(''total_tests'', JInt (int (length ex_results))),
                     (''passed_tests'', JInt (int (length (filter case_passed ex_results)))),
                     (''failed_tests'', JInt (int (length (filter (\<lambda>t. \<not> case_passed t) ex_results)))),
                     (''success_rate'',
                        JStr (if 0 < length ex_results
                              then percent_exact (length (filter case_passed ex_results)) (length ex_results)
                              else ''0%''))]),
            (''timestamp'', JStr ''2024-05-01T12:00:09''),
            (''test_results'', JList ex_results),
            (''failed_tests_summary'', JList entries)]" and
    l: "list_all2 listed (filter (\<lambda>t. \<not> case_passed t) ex_results) entries"
    using report_counts [OF all, of percent_exact "''2024-05-01T12:00:09''"]
    by (elim exE conjE) (rule that, assumption+)
  from l obtain e0 e2 where en: "entries = [e0, e2]" and l0: "listed (JObj ex_result0) e0"
    and l2: "listed (JObj ex_result2) e2"
    unfolding f by (auto simp: list_all2_Cons1)
  have e0: "e0 = JObj [(''name'', JStr ''Test email with value: amy@example.org''),
                          (''expected_status'', JInt 200), (''actual_status'', JStr ''Error''),
                          (''error'', JStr ''Connection refused'')]"
    using l0 by (simp add: listed_def ex_result0_def)
  have e2: "e2 = JObj [(''name'', JStr ''Test name with value: ''),
                          (''expected_status'', JInt 400), (''actual_status'', JInt 200),
                          (''error'', JStr ''No error message'')]"
    using l2 by (simp add: listed_def ex_result2_def)
  have "generate_test_report percent_exact ''2024-05-01T12:00:09'' ex_results =
     Inr [(''summary'',
             JObj [(''total_tests'', JInt 3), (''passed_tests'', JInt 1), (''failed_tests'', JInt 2),
                   (''success_rate'', JStr ''33.33%'')]),
          (''timestamp'', JStr ''2024-05-01T12:00:09''),
          (''test_results'', JList ex_results),
          (''failed_tests_summary'', JList [e0, e2])]"
    using rep unfolding p f len en by (simp add: percent_one_third)
  then show ?thesis using e ex_results_eval e0 e2 by simp
qed

text \<open>
  C10 as stated fails: a scenario of the oracle that has no \<^verbatim>\<open>name\<close> is completed and
  executed like any other; it is answered with status 200 where 400 is expected, so it
  does not pass, and the report, which subscripts the name of every case that did not
  pass, raises \<^verbatim>\<open>KeyError\<close> instead of counting and listing it.
\<close>

theorem report_raises_counterexample:
  "complete_case signup_default_body [''email''] nameless_scenario = Inr (JObj nameless_case) \<and>
   run_case str_scalar ex_endpoint (ex_net 1) (ex_now 1) nameless_case = nameless_result \<and>
   generate_test_report percent_exact ''2024-05-01T12:00:09'' [JObj nameless_result]
     = Inl (KeyError ''name'')"
proof -
  have 1: "complete_case signup_default_body [''email''] nameless_scenario = Inr (JObj nameless_case)"
    by (simp add: complete_case_def nameless_scenario_def nameless_case_def signup_default_body_def)
  have rq: "request_of str_scalar ex_endpoint nameless_case =
              Inr (Request ''POST'' ex_endpoint
                     (Json (JObj [(''email'', JStr ''a@b.c''), (''password'', JStr ''StrongPassword123!''),
                                  (''name'', JStr [])])))"
    by (simp add: request_of_def nameless_case_def lower_POST)
  have 2: "run_case str_scalar ex_endpoint (ex_net 1) (ex_now 1) nameless_case = nameless_result"
    unfolding run_case_def try_case_def rq
    by (simp add: ex_net_def ex_response_def nameless_case_def nameless_result_def)
  have 3: "generate_test_report percent_exact ''2024-05-01T12:00:09'' [JObj nameless_result]
     = Inl (KeyError ''name'')"
    by (simp add: generate_test_report_def result_entry_def failed_entry_def nameless_result_def)
  show ?thesis using 1 2 3 by simp
qed

subsection \<open>Default body synthesis\<close>

lemma priced_sample_data_eval:
  "sample_data_of_schema priced_schema = Inr (Some priced_sample_data)"
  by (simp add: sample_data_of_schema_def priced_schema_def priced_sample_data_def
      process_property_def copy_key_def handle_any_of_def add_example_def lower_email lower_price)

lemma priced_requirements_eval:
  "requirements_of priced_sample_data
     (JObj [(''summary'', JStr ''Create item''), (''description'', JStr []), (''tags'', JList [])])
   = Inr priced_requirements"
  by (simp add: requirements_of_def priced_sample_data_def priced_requirements_def copy_key_def)

text \<open>
  C1. The claim: default-body synthesis either returns a body with every required field
  name or fails. The code: a required field that carries no example, is not of format
  email, has no \<^verbatim>\<open>password\<close> in its name and whose type is none of string, boolean,
  integer falls through the chain of \<^verbatim>\<open>elif\<close>s, which has no \<^verbatim>\<open>else\<close>. A schema with
  the required fields \<^verbatim>\<open>email\<close> and \<^verbatim>\<open>price\<close> (a number) goes through the extraction and
  the requirements builder, and \<^verbatim>\<open>get_default_request_body\<close> returns normally a body
  with \<^verbatim>\<open>email\<close> only.
\<close>

theorem default_body_omits_required_number:
  "sample_data_of_schema priced_schema = Inr (Some priced_sample_data) \<and>
   requirements_of priced_sample_data
     (JObj [(''summary'', JStr ''Create item''), (''description'', JStr []), (''tags'', JList [])])
     = Inr priced_requirements \<and>
   get_default_request_body priced_requirements = Inr [(''email'', JStr ''user@gmail.com'')]"
  using priced_sample_data_eval priced_requirements_eval
  by (simp add: get_default_request_body_def priced_requirements_def required_field_value_def lower_price)

end
